theory Spec2Isabelle
  imports Main "HOL-Library.Word"
begin

unbundle bit_operations_syntax

section \<open>libobmm: constants and data\<close>

text \<open>
  A shallow embedding of \<^verbatim>\<open>libobmm.c\<close> and \<^verbatim>\<open>vendor_adaptor.c\<close>.
  C \<^verbatim>\<open>int\<close> and \<^verbatim>\<open>long\<close> values that the library only compares and
  copies are \<open>int\<close>; fixed-width unsigned fields are words; a pointer that may be
  \<^verbatim>\<open>NULL\<close> is an \<open>option\<close> holding the pointee.
\<close>

type_synonym u8 = "8 word"
type_synonym u16 = "16 word"
type_synonym u32 = "32 word"
type_synonym u64 = "64 word"

text \<open>\<^verbatim>\<open>typedef uint64_t mem_id\<close>\<close>
type_synonym mem_id = u64

definition EINVAL :: int where "EINVAL = 22"
definition ENODEV :: int where "ENODEV = 19"
definition ENOMEM :: int where "ENOMEM = 12"

definition OBMM_INVALID_MEMID :: mem_id where "OBMM_INVALID_MEMID = 0"
definition NUMA_NO_NODE :: int where "NUMA_NO_NODE = - 1"
definition UINT8_MAX :: int where "UINT8_MAX = 255"
definition INT_MAX :: int where "INT_MAX = 2147483647"
definition INT_MIN :: int where "INT_MIN = - 2147483648"

definition EID_SIZE :: nat where "EID_SIZE = 16"
definition MAX_CONTROLLERS :: nat where "MAX_CONTROLLERS = 8"
definition MAX_PATH :: nat where "MAX_PATH = 256"
definition INVAL_UMMU_MAPPING :: int where "INVAL_UMMU_MAPPING = - 1"

text \<open>
  \<^verbatim>\<open>struct obmm_mem_desc\<close> (libobmm.h). The field \<^verbatim>\<open>length\<close> is \<open>length_d\<close>
  here, since \<open>length\<close> is the list function of HOL.
\<close>
record obmm_mem_desc =
  addr :: u64
  length_d :: u64
  seid :: "u8 list"
  deid :: "u8 list"
  tokenid :: u32
  scna :: u32
  dcna :: u32
  priv_len :: u16
  priv :: "u8 list"

text \<open>
  \<^verbatim>\<open>struct obmm_preimport_info\<close> (libobmm.h); its fields carry the prefix \<open>pi_\<close>,
  as record fields share one name space.
\<close>
record obmm_preimport_info =
  pi_pa :: u64
  pi_length :: u64
  pi_base_dist :: int
  pi_numa_id :: int
  pi_seid :: "u8 list"
  pi_deid :: "u8 list"
  pi_scna :: u32
  pi_dcna :: u32
  pi_priv_len :: u16
  pi_priv :: "u8 list"

subsection \<open>The command structures of the control device\<close>

text \<open>
  The structures \<^verbatim>\<open>obmm_cmd_*\<close> are declared in the kernel header
  \<^verbatim>\<open>ub/obmm.h\<close>, which is not part of the library. Each record below has the fields
  the library reads or writes, with a prefix naming the structure.
\<close>

datatype obmm_query_key_type = OBMM_QUERY_BY_PA | OBMM_QUERY_BY_ID_OFFSET

record obmm_cmd_addr_query =
  aq_key_type :: obmm_query_key_type
  aq_pa :: u64
  aq_mem_id :: mem_id
  aq_offset :: u64

datatype hisi_ummu_tdev_version = HISI_TDEV_INFO_V1

text \<open>\<^verbatim>\<open>struct hisi_ummu_tdev_info\<close>, the vendor payload (its union has the one member v1).\<close>
record hisi_ummu_tdev_info =
  ver :: hisi_ummu_tdev_version
  ummu_idx_mask :: u64
  on_chip :: bool

record obmm_cmd_export_pid =
  ep_va :: u64
  ep_length :: u64
  ep_pid :: int
  ep_flags :: u64
  ep_priv_len :: u16
  ep_priv :: "u8 list"
  ep_deid :: "u8 list"
  ep_vendor_info :: "hisi_ummu_tdev_info option"
  ep_vendor_len :: u16
  ep_pxm_numa :: int
  ep_uba :: u64
  ep_tokenid :: u32
  ep_mem_id :: mem_id

record obmm_cmd_export =
  ex_size :: "u64 list"
  ex_length :: nat
  ex_flags :: u64
  ex_priv_len :: u16
  ex_priv :: "u8 list"
  ex_deid :: "u8 list"
  ex_vendor_info :: "hisi_ummu_tdev_info option"
  ex_vendor_len :: u16
  ex_pxm_numa :: int
  ex_uba :: u64
  ex_tokenid :: u32
  ex_mem_id :: mem_id

record obmm_cmd_import =
  im_addr :: u64
  im_length :: u64
  im_tokenid :: u32
  im_scna :: u32
  im_dcna :: u32
  im_priv_len :: u16
  im_priv :: "u8 list"
  im_flags :: u64
  im_base_dist :: int
  im_deid :: "u8 list"
  im_seid :: "u8 list"
  im_mem_id :: mem_id
  im_numa_id :: int

text \<open>\<^verbatim>\<open>struct obmm_cmd_unexport\<close> and \<^verbatim>\<open>struct obmm_cmd_unimport\<close> have the same two fields.\<close>
record obmm_cmd_unexport =
  ux_mem_id :: mem_id
  ux_flags :: u64

record obmm_cmd_preimport =
  pc_pa :: u64
  pc_length :: u64
  pc_base_dist :: int
  pc_numa_id :: int
  pc_scna :: u32
  pc_dcna :: u32
  pc_priv_len :: u16
  pc_priv :: "u8 list"
  pc_flags :: u64
  pc_deid :: "u8 list"
  pc_seid :: "u8 list"

datatype ioctl_request =
    OBMM_CMD_ADDR_QUERY
  | OBMM_CMD_EXPORT_PID
  | OBMM_CMD_EXPORT
  | OBMM_CMD_IMPORT
  | OBMM_CMD_UNEXPORT
  | OBMM_CMD_UNIMPORT
  | OBMM_CMD_DECLARE_PREIMPORT
  | OBMM_CMD_UNDECLARE_PREIMPORT

subsection \<open>The environment of a call\<close>

text \<open>
  What \<^verbatim>\<open>glob\<close> followed by \<^verbatim>\<open>dirname\<close> finds for one controller slot:
  \<open>Glob_match p\<close> when the pattern has a match and \<open>p\<close> is the directory of the
  first one.
\<close>
datatype glob_result = Glob_error | Glob_nomatch | Glob_match string

text \<open>
  The outcome of \<^verbatim>\<open>fopen\<close>, \<^verbatim>\<open>fread\<close> and \<^verbatim>\<open>strtol\<close> on one attribute file:
  \<open>Strtol_long v\<close> when \<^verbatim>\<open>strtol\<close> consumed digits and returned the long \<open>v\<close>.
\<close>
datatype file_read = Fopen_fails | Fread_nothing | Strtol_nothing | Strtol_long int

text \<open>
  The reply of the device to one \<^verbatim>\<open>ioctl\<close>: the return value, the value
  \<^verbatim>\<open>errno\<close> takes when the call fails, and the command structure as the device
  leaves it.
\<close>
type_synonym 'c ioctl_reply = "int \<times> int \<times> 'c"

text \<open>
  Everything outside the library that a call depends on: the constants of the missing
  header \<^verbatim>\<open>ub/obmm.h\<close> (parameters here), the result of opening
  \<^verbatim>\<open>/dev/obmm\<close>, the sysfs tree, the allocator and the device.
  \<open>free_errno = Some e\<close> is a \<^verbatim>\<open>free\<close> that leaves \<open>e\<close> in \<^verbatim>\<open>errno\<close>.
\<close>
record env =
  OBMM_IMPORT_FLAG_NUMA_REMOTE :: u64
  OBMM_IMPORT_FLAG_PREIMPORT :: u64
  OBMM_MAX_LOCAL_NUMA_NODES :: nat
  OBMM_MAX_VENDOR_LEN :: nat
  open_ret :: int
  open_errno :: int
  glob_ubc :: "nat \<Rightarrow> glob_result"
  sysfs_file :: "string \<Rightarrow> file_read"
  calloc_ok :: bool
  free_errno :: "int option"
  dev_addr_query :: "int \<Rightarrow> obmm_cmd_addr_query \<Rightarrow> obmm_cmd_addr_query ioctl_reply"
  dev_export_pid :: "int \<Rightarrow> obmm_cmd_export_pid \<Rightarrow> obmm_cmd_export_pid ioctl_reply"
  dev_export :: "int \<Rightarrow> obmm_cmd_export \<Rightarrow> obmm_cmd_export ioctl_reply"
  dev_import :: "int \<Rightarrow> obmm_cmd_import \<Rightarrow> obmm_cmd_import ioctl_reply"
  dev_unexport :: "int \<Rightarrow> obmm_cmd_unexport \<Rightarrow> obmm_cmd_unexport ioctl_reply"
  dev_unimport :: "int \<Rightarrow> obmm_cmd_unexport \<Rightarrow> obmm_cmd_unexport ioctl_reply"
  dev_declare_preimport :: "int \<Rightarrow> obmm_cmd_preimport \<Rightarrow> obmm_cmd_preimport ioctl_reply"
  dev_undeclare_preimport :: "int \<Rightarrow> obmm_cmd_preimport \<Rightarrow> obmm_cmd_preimport ioctl_reply"

text \<open>The effects a call has on the world, in the order they happen.\<close>
datatype event =
    Ev_open
  | Ev_glob nat
  | Ev_fopen string
  | Ev_calloc
  | Ev_free
  | Ev_ioctl ioctl_request int

text \<open>
  The state a call runs in: \<^verbatim>\<open>errno\<close>, the static \<^verbatim>\<open>obmm_dev_fd\<close> of
  \<^verbatim>\<open>obmm_dev_get_fd\<close> (\<open>-1\<close> before the first successful open) and the events so far.
\<close>
record state =
  errno :: int
  obmm_dev_fd :: int
  trace :: "event list"

definition emit :: "event \<Rightarrow> state \<Rightarrow> state" where
  "emit e st = st\<lparr>trace := trace st @ [e]\<rparr>"

text \<open>
  One \<^verbatim>\<open>ioctl(fd, req, &cmd)\<close>: the device's reply is recorded, and \<^verbatim>\<open>errno\<close>
  is written only when the call fails.
\<close>
definition ioctl :: "ioctl_request \<Rightarrow> 'c ioctl_reply \<Rightarrow> state \<Rightarrow> int \<times> 'c \<times> state" where
  "ioctl req reply st =
     (case reply of (ret, e, cmd') \<Rightarrow>
        (ret, cmd', emit (Ev_ioctl req ret) (st\<lparr>errno := (if ret < 0 then e else errno st)\<rparr>)))"

section \<open>vendor_adaptor.c\<close>

text \<open>
  Messages to \<^verbatim>\<open>stderr\<close> (\<^verbatim>\<open>pr_err\<close>) are left out. The calls into libc on
  sysfs files are modelled without their effect on \<^verbatim>\<open>errno\<close>: the library
  reads \<^verbatim>\<open>errno\<close> only after \<^verbatim>\<open>open\<close> and \<^verbatim>\<open>ioctl\<close>.
\<close>

text \<open>\<^verbatim>\<open>static uint8_t g_invalid_eid[16]\<close>, zero-initialised.\<close>
definition g_invalid_eid :: "u8 list" where
  "g_invalid_eid = replicate 16 0"

text \<open>\<^verbatim>\<open>memcmp(a, b, n) == 0\<close>\<close>
definition memcmp_eq :: "u8 list \<Rightarrow> u8 list \<Rightarrow> nat \<Rightarrow> bool" where
  "memcmp_eq a b n = (take n a = take n b)"

text \<open>\<^verbatim>\<open>free\<close>, which may leave a value of its own in \<^verbatim>\<open>errno\<close>.\<close>
definition c_free :: "env \<Rightarrow> state \<Rightarrow> state" where
  "c_free w st =
     emit Ev_free (case free_errno w of None \<Rightarrow> st | Some e \<Rightarrow> st\<lparr>errno := e\<rparr>)"

definition read_int_from_file :: "env \<Rightarrow> string \<Rightarrow> state \<Rightarrow> int \<times> state" where
  "read_int_from_file w path st =
     (let st1 = emit (Ev_fopen path) st in
      case sysfs_file w path of
        Fopen_fails \<Rightarrow> (- 1, st1)
      | Fread_nothing \<Rightarrow> (- 1, st1)
      | Strtol_nothing \<Rightarrow> (- 1, st1)
      | Strtol_long ret \<Rightarrow>
          if ret > INT_MAX \<or> ret < INT_MIN then (- 1, st1) else (ret, st1))"

text \<open>
  \<^verbatim>\<open>snprintf\<close> returns the length of the whole path and stores at most
  \<open>MAX_PATH - 1\<close> characters of it.
\<close>
definition get_ubc_attr :: "env \<Rightarrow> string \<Rightarrow> string \<Rightarrow> state \<Rightarrow> int \<times> state" where
  "get_ubc_attr w ubc_path attr st =
     (let attr_path = ubc_path @ ''/'' @ attr;
          ret = int (length attr_path)
      in if ret \<le> 0 then (- 1, st)
         else read_int_from_file w (take (MAX_PATH - 1) attr_path) st)"

text \<open>The buffer \<open>ubc_path\<close> is written only when the function returns 0.\<close>
definition get_ubc_path :: "env \<Rightarrow> nat \<Rightarrow> string \<Rightarrow> nat \<Rightarrow> state \<Rightarrow> int \<times> string \<times> state" where
  "get_ubc_path w ubc_index ubc_path path_len st =
     (let st1 = emit (Ev_glob ubc_index) st in
      case glob_ubc w ubc_index of
        Glob_error \<Rightarrow> (ENODEV, ubc_path, st1)
      | Glob_nomatch \<Rightarrow> (ENODEV, ubc_path, st1)
      | Glob_match glob_path \<Rightarrow>
          if length glob_path \<ge> path_len then (EINVAL, ubc_path, st1)
          else (0, glob_path, st1))"

text \<open>
  \<^verbatim>\<open>uint8_t sysfs_eid[EID_SIZE] = {}; *(unsigned int*)sysfs_eid = (unsigned int)ret;\<close>
  The four bytes of the value in host order, which is little-endian on the hosts of the
  library (libobmm.h: "128bit eid, ordered by little-endian"), then twelve zero bytes.
\<close>
definition sysfs_eid_of :: "int \<Rightarrow> u8 list" where
  "sysfs_eid_of ret =
     (let v = (word_of_int ret :: u32) in
      map (\<lambda>k. (ucast (drop_bit (8 * k) v) :: u8)) [0..<4] @ replicate (EID_SIZE - 4) 0)"

text \<open>
  The loop of \<^verbatim>\<open>get_ubc_by_eid\<close> from slot \<open>i\<close> on. The result is the return
  value, \<^verbatim>\<open>*uba_index\<close> when it was written, the buffer \<open>ubc_path\<close> and the state.
\<close>
function get_ubc_by_eid_from ::
  "env \<Rightarrow> nat \<Rightarrow> string \<Rightarrow> nat \<Rightarrow> u8 list \<Rightarrow> state \<Rightarrow> int \<times> nat option \<times> string \<times> state" where
  "get_ubc_by_eid_from w i ubc_path path_len eid st =
     (if i < MAX_CONTROLLERS then
        (case get_ubc_path w i ubc_path path_len st of (ret, ubc_path1, st1) \<Rightarrow>
           if ret \<noteq> 0 then get_ubc_by_eid_from w (i + 1) ubc_path1 path_len eid st1
           else
             (case get_ubc_attr w ubc_path1 ''eid'' st1 of (ret2, st2) \<Rightarrow>
                if ret2 < 0 then (- 1, None, ubc_path1, st2\<lparr>errno := ENODEV\<rparr>)
                else if \<not> memcmp_eq (sysfs_eid_of ret2) eid EID_SIZE then
                  get_ubc_by_eid_from w (i + 1) ubc_path1 path_len eid st2
                else (0, Some i, ubc_path1, st2)))
      else (- 1, None, ubc_path, st\<lparr>errno := ENODEV\<rparr>))"
  by pat_completeness auto
termination
  by (relation "measure (\<lambda>(w, i, p, l, e, s). MAX_CONTROLLERS - i)") auto

definition get_ubc_by_eid ::
  "env \<Rightarrow> string \<Rightarrow> nat \<Rightarrow> u8 list \<Rightarrow> state \<Rightarrow> int \<times> nat option \<times> string \<times> state" where
  "get_ubc_by_eid w ubc_path path_len eid st = get_ubc_by_eid_from w 0 ubc_path path_len eid st"

record ub_bus_ctl_node =
  ummu_mapping :: int
  numa_id :: int
  valid :: bool

definition get_ctl_by_eid :: "env \<Rightarrow> u8 list \<Rightarrow> state \<Rightarrow> ub_bus_ctl_node \<times> state" where
  "get_ctl_by_eid w eid st =
     (let node = \<lparr>ummu_mapping = 0, numa_id = 0, valid = False\<rparr> in
      case get_ubc_by_eid w [] MAX_PATH eid st of (ret, ubc_index, ubc_path, st1) \<Rightarrow>
        if ret \<noteq> 0 then (node, st1)
        else
          (case get_ubc_attr w ubc_path ''ummu_map'' st1 of (m, st2) \<Rightarrow>
             let node = node\<lparr>ummu_mapping := m\<rparr> in
             if ummu_mapping node < 0 then (node, st2)
             else
               (case get_ubc_attr w ubc_path ''numa'' st2 of (n, st3) \<Rightarrow>
                  let node = node\<lparr>numa_id := n\<rparr> in
                  if numa_id node < 0 then (node, st3)
                  else (node\<lparr>valid := True\<rparr>, st3))))"

text \<open>The second component is \<^verbatim>\<open>*cna\<close> when it was written.\<close>
definition get_primary_cna_by_eid :: "env \<Rightarrow> u8 list \<Rightarrow> state \<Rightarrow> int \<times> u32 option \<times> state" where
  "get_primary_cna_by_eid w eid st =
     (case get_ubc_by_eid w [] MAX_PATH eid st of (ret, ubc_index, ubc_path, st1) \<Rightarrow>
        if ret \<noteq> 0 then (ret, None, st1)
        else
          (case get_ubc_attr w ubc_path ''primary_cna'' st1 of (ret2, st2) \<Rightarrow>
             if ret2 < 0 then (- 1, None, st2\<lparr>errno := ENODEV\<rparr>)
             else (0, Some (word_of_int ret2), st2)))"

text \<open>
  \<^verbatim>\<open>a << n\<close> on \<^verbatim>\<open>int\<close> (32 bits): defined when \<open>0 \<le> n < 32\<close>, \<open>a\<close> is not negative
  and the result fits \<^verbatim>\<open>int\<close>; undefined (\<open>None\<close>) otherwise.
\<close>
definition c_shl_int :: "int \<Rightarrow> int \<Rightarrow> int option" where
  "c_shl_int a n =
     (if n < 0 \<or> 32 \<le> n \<or> a < 0 \<or> INT_MAX < a * 2 ^ nat n then None
      else Some (a * 2 ^ nat n))"

text \<open>
  \<^verbatim>\<open>sizeof(struct hisi_ummu_tdev_info)\<close> on an LP64 host: the enum (4 bytes, 4 of
  padding), the unsigned long mask (8) and the bool (1 byte, 7 of padding).
\<close>
definition sizeof_hisi_ummu_tdev_info :: nat where
  "sizeof_hisi_ummu_tdev_info = 24"

text \<open>
  The result is \<open>None\<close> when the shift is undefined; otherwise the return value, the
  values written to \<^verbatim>\<open>*vendor_info\<close> and \<^verbatim>\<open>*vendor_len\<close> (when written) and the
  state.
\<close>
definition init_vendor_info ::
  "env \<Rightarrow> int \<Rightarrow> state \<Rightarrow> (int \<times> (hisi_ummu_tdev_info \<times> u16) option \<times> state) option" where
  "init_vendor_info w ummu_mapping_arg st =
     (let st1 = emit Ev_calloc st in
      if \<not> calloc_ok w then Some (ENOMEM, None, st1)
      else if sizeof_hisi_ummu_tdev_info > OBMM_MAX_VENDOR_LEN w then
        Some (EINVAL, None, c_free w st1)
      else
        (case c_shl_int 1 ummu_mapping_arg of
           None \<Rightarrow> None
         | Some m \<Rightarrow>
             Some (0,
               Some (\<lparr>ver = HISI_TDEV_INFO_V1, ummu_idx_mask = word_of_int m, on_chip = True\<rparr>,
                     word_of_nat sizeof_hisi_ummu_tdev_info),
               st1)))"

text \<open>
  The result is \<open>None\<close> when \<open>init_vendor_info\<close> is undefined; otherwise the return
  value, the payload and its length (when written), \<^verbatim>\<open>*numa\<close> (when written) and the
  state.
\<close>
definition vendor_adapt_export ::
  "env \<Rightarrow> obmm_mem_desc \<Rightarrow> state \<Rightarrow>
     (int \<times> (hisi_ummu_tdev_info \<times> u16) option \<times> int option \<times> state) option" where
  "vendor_adapt_export w desc st =
     (if memcmp_eq (deid desc) g_invalid_eid 16 then Some (EINVAL, None, None, st)
      else
        (case get_ctl_by_eid w (deid desc) st of (node, st1) \<Rightarrow>
           if \<not> valid node then Some (ENODEV, None, None, st1)
           else
             (case init_vendor_info w (ummu_mapping node) st1 of
                None \<Rightarrow> None
              | Some (ret, vinfo, st2) \<Rightarrow>
                  if ret \<noteq> 0 then Some (ret, vinfo, None, st2)
                  else Some (0, vinfo, Some (numa_id node), st2))))"

definition free_vendor_info :: "env \<Rightarrow> state \<Rightarrow> state" where
  "free_vendor_info w st = c_free w st"

definition vendor_fixup_import_cmd :: "env \<Rightarrow> obmm_cmd_import \<Rightarrow> state \<Rightarrow> int \<times> state" where
  "vendor_fixup_import_cmd w cmd st =
     (case get_primary_cna_by_eid w (im_seid cmd) st of (ret, cna, st1) \<Rightarrow>
        if ret \<noteq> 0 then (ret, st1)
        else if cna \<noteq> Some (im_scna cmd) then (- 1, st1\<lparr>errno := ENODEV\<rparr>)
        else (0, st1))"

text \<open>\<^verbatim>\<open>vendor_cleanup_import_cmd\<close> and \<^verbatim>\<open>vendor_cleanup_preimport_cmd\<close> have empty bodies.\<close>
definition vendor_cleanup_import_cmd :: "obmm_cmd_import \<Rightarrow> state \<Rightarrow> state" where
  "vendor_cleanup_import_cmd cmd st = st"

definition vendor_fixup_preimport_cmd :: "env \<Rightarrow> obmm_cmd_preimport \<Rightarrow> state \<Rightarrow> int \<times> state" where
  "vendor_fixup_preimport_cmd w cmd st =
     (case get_primary_cna_by_eid w (pc_seid cmd) st of (ret, cna, st1) \<Rightarrow>
        if ret \<noteq> 0 then (ret, st1)
        else if cna \<noteq> Some (pc_scna cmd) then (- 1, st1\<lparr>errno := ENODEV\<rparr>)
        else (0, st1))"

definition vendor_cleanup_preimport_cmd :: "obmm_cmd_preimport \<Rightarrow> state \<Rightarrow> state" where
  "vendor_cleanup_preimport_cmd cmd st = st"

section \<open>libobmm.c\<close>

text \<open>
  \<^verbatim>\<open>obmm_dev_get_fd\<close>: the device is opened when the static descriptor is negative;
  \<^verbatim>\<open>errno\<close> ends as the error of a failed open and as 0 otherwise.
\<close>
definition obmm_dev_get_fd :: "env \<Rightarrow> state \<Rightarrow> int \<times> state" where
  "obmm_dev_get_fd w st =
     (if obmm_dev_fd st < 0 then
        (let fd = open_ret w;
             errsv = (if fd < 0 then open_errno w else 0)
         in (fd, (emit Ev_open st)\<lparr>obmm_dev_fd := fd, errno := errsv\<rparr>))
      else (obmm_dev_fd st, st\<lparr>errno := 0\<rparr>))"

text \<open>
  The two query functions. \<open>id_ptr\<close>, \<open>offset_ptr\<close> and \<open>pa_ptr\<close> are the output
  pointers: \<open>None\<close> for \<^verbatim>\<open>NULL\<close>, \<open>Some v\<close> for a location that holds \<open>v\<close>; the
  result gives the locations after the call.
\<close>
definition obmm_query_memid_by_pa ::
  "env \<Rightarrow> u64 \<Rightarrow> mem_id option \<Rightarrow> u64 option \<Rightarrow> state \<Rightarrow>
     int \<times> mem_id option \<times> u64 option \<times> state" where
  "obmm_query_memid_by_pa w pa id_ptr offset_ptr st =
     (case obmm_dev_get_fd w st of (fd, st1) \<Rightarrow>
        if fd < 0 then (fd, id_ptr, offset_ptr, st1)
        else
          (let cmd_addr_query =
                 \<lparr>aq_key_type = OBMM_QUERY_BY_PA, aq_pa = pa, aq_mem_id = 0, aq_offset = 0\<rparr>
           in case ioctl OBMM_CMD_ADDR_QUERY (dev_addr_query w fd cmd_addr_query) st1 of
                (ret, cmd', st2) \<Rightarrow>
                  if ret < 0 then (ret, id_ptr, offset_ptr, st2)
                  else
                    (0,
                     (case id_ptr of None \<Rightarrow> None | Some old \<Rightarrow> Some (aq_mem_id cmd')),
                     (case offset_ptr of None \<Rightarrow> None | Some old \<Rightarrow> Some (aq_offset cmd')),
                     st2)))"

text \<open>
  \<^verbatim>\<open>memset\<close> clears the structure, so \<open>aq_key_type\<close> and \<open>aq_pa\<close> start as zero;
  \<^verbatim>\<open>OBMM_QUERY_BY_ID_OFFSET\<close> is then stored.
\<close>
definition obmm_query_pa_by_memid ::
  "env \<Rightarrow> mem_id \<Rightarrow> u64 \<Rightarrow> u64 option \<Rightarrow> state \<Rightarrow> int \<times> u64 option \<times> state" where
  "obmm_query_pa_by_memid w mid offset pa_ptr st =
     (case obmm_dev_get_fd w st of (fd, st1) \<Rightarrow>
        if fd < 0 then (fd, pa_ptr, st1)
        else
          (let cmd_addr_query =
                 \<lparr>aq_key_type = OBMM_QUERY_BY_ID_OFFSET, aq_pa = 0, aq_mem_id = mid,
                  aq_offset = offset\<rparr>
           in case ioctl OBMM_CMD_ADDR_QUERY (dev_addr_query w fd cmd_addr_query) st1 of
                (ret, cmd', st2) \<Rightarrow>
                  if ret < 0 then (ret, pa_ptr, st2)
                  else
                    (0, (case pa_ptr of None \<Rightarrow> None | Some old \<Rightarrow> Some (aq_pa cmd')), st2)))"

text \<open>
  \<open>obmm_export_useraddr\<close>. The result is \<open>None\<close> when the call runs into undefined
  behaviour; otherwise the returned mem_id, the descriptor after the call and the state.
  The payload is released right after the \<^verbatim>\<open>ioctl\<close>, with no copy of \<^verbatim>\<open>errno\<close>
  taken.
\<close>
definition obmm_export_useraddr ::
  "env \<Rightarrow> int \<Rightarrow> u64 \<Rightarrow> u64 \<Rightarrow> u64 \<Rightarrow> obmm_mem_desc option \<Rightarrow> state \<Rightarrow>
     (mem_id \<times> obmm_mem_desc option \<times> state) option" where
  "obmm_export_useraddr w pid va len flags desc_ptr st =
     (case desc_ptr of
        None \<Rightarrow> Some (OBMM_INVALID_MEMID, None, st\<lparr>errno := EINVAL\<rparr>)
      | Some desc \<Rightarrow>
          (case obmm_dev_get_fd w st of (fd, st1) \<Rightarrow>
             if fd < 0 then Some (OBMM_INVALID_MEMID, Some desc, st1)
             else
               (let cmd0 =
                      \<lparr>ep_va = va, ep_length = len, ep_pid = pid, ep_flags = flags,
                       ep_priv_len = priv_len desc, ep_priv = priv desc,
                       ep_deid = take 16 (deid desc), ep_vendor_info = None,
                       ep_vendor_len = 0, ep_pxm_numa = 0, ep_uba = 0, ep_tokenid = 0,
                       ep_mem_id = 0\<rparr>
                in case vendor_adapt_export w desc st1 of
                     None \<Rightarrow> None
                   | Some (ret, vinfo, numa, st2) \<Rightarrow>
                       (let cmd1 = (case vinfo of
                                      None \<Rightarrow> cmd0
                                    | Some (info, vlen) \<Rightarrow>
                                        cmd0\<lparr>ep_vendor_info := Some info, ep_vendor_len := vlen\<rparr>);
                            cmd_export_pid = (case numa of
                                                None \<Rightarrow> cmd1
                                              | Some n \<Rightarrow> cmd1\<lparr>ep_pxm_numa := n\<rparr>)
                        in if ret \<noteq> 0 then
                             Some (OBMM_INVALID_MEMID, Some desc, st2\<lparr>errno := ret\<rparr>)
                           else
                             (case ioctl OBMM_CMD_EXPORT_PID
                                     (dev_export_pid w fd cmd_export_pid) st2 of
                                (ret', cmd', st3) \<Rightarrow>
                                  (let st4 = free_vendor_info w st3 in
                                   if ret' < 0 then Some (OBMM_INVALID_MEMID, Some desc, st4)
                                   else
                                     Some (ep_mem_id cmd',
                                           Some (desc\<lparr>addr := ep_uba cmd', length_d := len,
                                                       tokenid := ep_tokenid cmd', scna := 0,
                                                       dcna := 0\<rparr>),
                                           st4)))))))"

text \<open>
  The loop \<^verbatim>\<open>for (i = 0; i < OBMM_MAX_LOCAL_NUMA_NODES; i++) desc->length += length[i]\<close>,
  from index \<open>i\<close> with the sum \<open>acc\<close> so far; the addition is that of \<^verbatim>\<open>uint64_t\<close>.
\<close>
function add_lengths :: "u64 list \<Rightarrow> nat \<Rightarrow> nat \<Rightarrow> u64 \<Rightarrow> u64" where
  "add_lengths L n i acc = (if i < n then add_lengths L n (i + 1) (acc + L ! i) else acc)"
  by pat_completeness auto
termination
  by (relation "measure (\<lambda>(L, n, i, acc). n - i)") auto

text \<open>
  \<open>obmm_export\<close>. \<open>length_ptr\<close> is the array \<^verbatim>\<open>length\<close> (\<open>None\<close> for
  \<^verbatim>\<open>NULL\<close>); an array with fewer than \<^verbatim>\<open>OBMM_MAX_LOCAL_NUMA_NODES\<close> entries makes
  \<^verbatim>\<open>memcpy\<close> read past its end, which is undefined (\<open>None\<close>). \<^verbatim>\<open>errno\<close> is saved
  before the payload is released and restored after.
\<close>
definition obmm_export ::
  "env \<Rightarrow> u64 list option \<Rightarrow> u64 \<Rightarrow> obmm_mem_desc option \<Rightarrow> state \<Rightarrow>
     (mem_id \<times> obmm_mem_desc option \<times> state) option" where
  "obmm_export w length_ptr flags desc_ptr st =
     (case (length_ptr, desc_ptr) of
        (None, _) \<Rightarrow> Some (OBMM_INVALID_MEMID, desc_ptr, st\<lparr>errno := EINVAL\<rparr>)
      | (_, None) \<Rightarrow> Some (OBMM_INVALID_MEMID, desc_ptr, st\<lparr>errno := EINVAL\<rparr>)
      | (Some L, Some desc) \<Rightarrow>
          (case obmm_dev_get_fd w st of (fd, st1) \<Rightarrow>
             if fd < 0 then Some (OBMM_INVALID_MEMID, Some desc, st1)
             else if length L < OBMM_MAX_LOCAL_NUMA_NODES w then None
             else
               (let cmd0 =
                      \<lparr>ex_size = take (OBMM_MAX_LOCAL_NUMA_NODES w) L,
                       ex_length = OBMM_MAX_LOCAL_NUMA_NODES w, ex_flags = flags,
                       ex_priv_len = priv_len desc, ex_priv = priv desc,
                       ex_deid = take 16 (deid desc), ex_vendor_info = None,
                       ex_vendor_len = 0, ex_pxm_numa = 0, ex_uba = 0, ex_tokenid = 0,
                       ex_mem_id = 0\<rparr>
                in case vendor_adapt_export w desc st1 of
                     None \<Rightarrow> None
                   | Some (ret, vinfo, numa, st2) \<Rightarrow>
                       (let cmd1 = (case vinfo of
                                      None \<Rightarrow> cmd0
                                    | Some (info, vlen) \<Rightarrow>
                                        cmd0\<lparr>ex_vendor_info := Some info, ex_vendor_len := vlen\<rparr>);
                            cmd_export = (case numa of
                                            None \<Rightarrow> cmd1
                                          | Some n \<Rightarrow> cmd1\<lparr>ex_pxm_numa := n\<rparr>)
                        in if ret \<noteq> 0 then
                             Some (OBMM_INVALID_MEMID, Some desc, st2\<lparr>errno := ret\<rparr>)
                           else
                             (case ioctl OBMM_CMD_EXPORT (dev_export w fd cmd_export) st2 of
                                (ret', cmd', st3) \<Rightarrow>
                                  (let errsv = errno st3;
                                       st4 = free_vendor_info w st3;
                                       st5 = st4\<lparr>errno := errsv\<rparr>
                                   in if ret' < 0 then Some (OBMM_INVALID_MEMID, Some desc, st5)
                                      else
                                        (let memid = ex_mem_id cmd';
                                             desc1 = desc\<lparr>addr := ex_uba cmd',
                                                          tokenid := ex_tokenid cmd',
                                                          scna := 0, dcna := 0, length_d := 0\<rparr>;
                                             desc2 = desc1\<lparr>length_d :=
                                                       add_lengths L (OBMM_MAX_LOCAL_NUMA_NODES w) 0
                                                         (length_d desc1)\<rparr>
                                         in Some (memid, Some desc2, st5))))))))"

definition fill_import_cmd_info :: "obmm_mem_desc \<Rightarrow> u64 \<Rightarrow> int \<Rightarrow> obmm_cmd_import" where
  "fill_import_cmd_info desc flags base_dist =
     \<lparr>im_addr = addr desc, im_length = length_d desc, im_tokenid = tokenid desc,
      im_scna = scna desc, im_dcna = dcna desc, im_priv_len = priv_len desc,
      im_priv = priv desc, im_flags = flags, im_base_dist = base_dist,
      im_deid = take 16 (deid desc), im_seid = take 16 (seid desc), im_mem_id = 0,
      im_numa_id = 0\<rparr>"

text \<open>
  \<open>obmm_import\<close>. \<open>numa_ptr\<close> is the pointer \<^verbatim>\<open>numa\<close> (\<open>None\<close> for
  \<^verbatim>\<open>NULL\<close>); the result is the returned mem_id, the location \<^verbatim>\<open>*numa\<close> after the
  call and the state.
\<close>
definition obmm_import ::
  "env \<Rightarrow> obmm_mem_desc option \<Rightarrow> u64 \<Rightarrow> int \<Rightarrow> int option \<Rightarrow> state \<Rightarrow>
     mem_id \<times> int option \<times> state" where
  "obmm_import w desc_ptr flags base_dist numa_ptr st =
     (case desc_ptr of
        None \<Rightarrow> (OBMM_INVALID_MEMID, numa_ptr, st\<lparr>errno := EINVAL\<rparr>)
      | Some desc \<Rightarrow>
          if ((flags AND OBMM_IMPORT_FLAG_NUMA_REMOTE w) \<noteq> 0
              \<and> (flags AND OBMM_IMPORT_FLAG_PREIMPORT w) = 0)
             \<and> (base_dist < 0 \<or> base_dist > UINT8_MAX)
          then (OBMM_INVALID_MEMID, numa_ptr, st\<lparr>errno := EINVAL\<rparr>)
          else
            (let cmd0 = (fill_import_cmd_info desc flags base_dist)\<lparr>im_mem_id := 0\<rparr>;
                 cmd_import = (case numa_ptr of
                                 Some n \<Rightarrow> cmd0\<lparr>im_numa_id := n\<rparr>
                               | None \<Rightarrow> cmd0\<lparr>im_numa_id := NUMA_NO_NODE\<rparr>)
             in case obmm_dev_get_fd w st of (fd, st1) \<Rightarrow>
                  if fd < 0 then (OBMM_INVALID_MEMID, numa_ptr, st1)
                  else
                    (case vendor_fixup_import_cmd w cmd_import st1 of (ret, st2) \<Rightarrow>
                       if ret \<noteq> 0 then (OBMM_INVALID_MEMID, numa_ptr, st2)
                       else
                         (case ioctl OBMM_CMD_IMPORT (dev_import w fd cmd_import) st2 of
                            (ret', cmd', st3) \<Rightarrow>
                              (let errsv = errno st3;
                                   st4 = vendor_cleanup_import_cmd cmd' st3;
                                   st5 = st4\<lparr>errno := errsv\<rparr>
                               in if ret' < 0 then (OBMM_INVALID_MEMID, numa_ptr, st5)
                                  else
                                    ((im_mem_id cmd'),
                                     (case numa_ptr of
                                        None \<Rightarrow> None
                                      | Some old \<Rightarrow> Some (im_numa_id cmd')),
                                     st5))))))"

definition obmm_unexport :: "env \<Rightarrow> mem_id \<Rightarrow> u64 \<Rightarrow> state \<Rightarrow> int \<times> state" where
  "obmm_unexport w mid flags st =
     (if mid = OBMM_INVALID_MEMID then (- 1, st\<lparr>errno := EINVAL\<rparr>)
      else
        (case obmm_dev_get_fd w st of (fd, st1) \<Rightarrow>
           if fd < 0 then (fd, st1)
           else
             (let cmd_unexport = \<lparr>ux_mem_id = mid, ux_flags = flags\<rparr> in
              case ioctl OBMM_CMD_UNEXPORT (dev_unexport w fd cmd_unexport) st1 of
                (ret, cmd', st2) \<Rightarrow> (ret, st2))))"

definition obmm_unimport :: "env \<Rightarrow> mem_id \<Rightarrow> u64 \<Rightarrow> state \<Rightarrow> int \<times> state" where
  "obmm_unimport w mid flags st =
     (if mid = OBMM_INVALID_MEMID then (- 1, st\<lparr>errno := EINVAL\<rparr>)
      else
        (case obmm_dev_get_fd w st of (fd, st1) \<Rightarrow>
           if fd < 0 then (fd, st1)
           else
             (let cmd_unimport = \<lparr>ux_mem_id = mid, ux_flags = flags\<rparr> in
              case ioctl OBMM_CMD_UNIMPORT (dev_unimport w fd cmd_unimport) st1 of
                (ret, cmd', st2) \<Rightarrow> (ret, st2))))"

text \<open>
  \<open>obmm_preimport\<close>. The result is the return value, the structure
  \<^verbatim>\<open>*preimport_info\<close> after the call (\<open>None\<close> for a \<^verbatim>\<open>NULL\<close> pointer) and the
  state.
\<close>
definition obmm_preimport ::
  "env \<Rightarrow> obmm_preimport_info option \<Rightarrow> u64 \<Rightarrow> state \<Rightarrow>
     int \<times> obmm_preimport_info option \<times> state" where
  "obmm_preimport w info_ptr flags st =
     (case info_ptr of
        None \<Rightarrow> (- 1, None, st\<lparr>errno := EINVAL\<rparr>)
      | Some preimport_info \<Rightarrow>
          if pi_base_dist preimport_info < 0 \<or> pi_base_dist preimport_info > UINT8_MAX
          then (- 1, Some preimport_info, st\<lparr>errno := EINVAL\<rparr>)
          else
            (case obmm_dev_get_fd w st of (fd, st1) \<Rightarrow>
               if fd < 0 then (fd, Some preimport_info, st1)
               else
                 (let cmd =
                        \<lparr>pc_pa = pi_pa preimport_info, pc_length = pi_length preimport_info,
                         pc_base_dist = pi_base_dist preimport_info,
                         pc_numa_id = pi_numa_id preimport_info,
                         pc_scna = pi_scna preimport_info, pc_dcna = pi_dcna preimport_info,
                         pc_priv_len = pi_priv_len preimport_info,
                         pc_priv = pi_priv preimport_info, pc_flags = flags,
                         pc_deid = take 16 (pi_deid preimport_info),
                         pc_seid = take 16 (pi_seid preimport_info)\<rparr>
                  in case vendor_fixup_preimport_cmd w cmd st1 of (ret, st2) \<Rightarrow>
                       if ret \<noteq> 0 then (ret, Some preimport_info, st2)
                       else
                         (case ioctl OBMM_CMD_DECLARE_PREIMPORT
                                 (dev_declare_preimport w fd cmd) st2 of
                            (ret', cmd', st3) \<Rightarrow>
                              (let errsv = errno st3;
                                   st4 = vendor_cleanup_preimport_cmd cmd' st3;
                                   st5 = st4\<lparr>errno := errsv\<rparr>
                               in if ret' < 0 then (ret', Some preimport_info, st5)
                                  else
                                    (0,
                                     Some (preimport_info\<lparr>pi_numa_id := pc_numa_id cmd'\<rparr>),
                                     st5))))))"

text \<open>
  \<open>obmm_unpreimport\<close>: after the \<^verbatim>\<open>NULL\<close> check and the device handle, the command
  is filled and sent; the function calls neither a range check nor
  \<open>vendor_fixup_preimport_cmd\<close>.
\<close>
definition obmm_unpreimport ::
  "env \<Rightarrow> obmm_preimport_info option \<Rightarrow> u64 \<Rightarrow> state \<Rightarrow> int \<times> state" where
  "obmm_unpreimport w info_ptr flags st =
     (case info_ptr of
        None \<Rightarrow> (- 1, st\<lparr>errno := EINVAL\<rparr>)
      | Some preimport_info \<Rightarrow>
          (case obmm_dev_get_fd w st of (fd, st1) \<Rightarrow>
             if fd < 0 then (fd, st1)
             else
               (let cmd =
                      \<lparr>pc_pa = pi_pa preimport_info, pc_length = pi_length preimport_info,
                       pc_base_dist = pi_base_dist preimport_info,
                       pc_numa_id = pi_numa_id preimport_info,
                       pc_scna = pi_scna preimport_info, pc_dcna = pi_dcna preimport_info,
                       pc_priv_len = pi_priv_len preimport_info,
                       pc_priv = pi_priv preimport_info, pc_flags = flags,
                       pc_deid = take 16 (pi_deid preimport_info),
                       pc_seid = take 16 (pi_seid preimport_info)\<rparr>
                in case ioctl OBMM_CMD_UNDECLARE_PREIMPORT
                          (dev_undeclare_preimport w fd cmd) st1 of
                     (ret, cmd', st2) \<Rightarrow> (ret, st2))))"

declare get_ubc_by_eid_from.simps [simp del]
declare add_lengths.simps [simp del]

section \<open>Notions used in the statements\<close>

text \<open>The events a call adds to the trace, and the events that are reads of sysfs.\<close>
definition sysfs_event :: "event \<Rightarrow> bool" where
  "sysfs_event e = (case e of Ev_glob i \<Rightarrow> True | Ev_fopen p \<Rightarrow> True | _ \<Rightarrow> False)"

definition new_events :: "state \<Rightarrow> state \<Rightarrow> event list" where
  "new_events st st' = drop (length (trace st)) (trace st')"

text \<open>
  \<open>st'\<close> comes from \<open>st\<close> by reads of sysfs only: the static descriptor is the same and
  the trace grew by sysfs events.
\<close>
definition sysfs_step :: "state \<Rightarrow> state \<Rightarrow> bool" where
  "sysfs_step st st' =
     (obmm_dev_fd st' = obmm_dev_fd st
      \<and> (\<exists>es. trace st' = trace st @ es \<and> list_all sysfs_event es))"

text \<open>The command \<open>obmm_import\<close> builds before it asks for the device handle.\<close>
definition import_cmd :: "obmm_mem_desc \<Rightarrow> u64 \<Rightarrow> int \<Rightarrow> int option \<Rightarrow> obmm_cmd_import" where
  "import_cmd desc flags base_dist numa_ptr =
     (fill_import_cmd_info desc flags base_dist)
       \<lparr>im_mem_id := 0,
        im_numa_id := (case numa_ptr of Some n \<Rightarrow> n | None \<Rightarrow> NUMA_NO_NODE)\<rparr>"

text \<open>The first check of \<open>obmm_import\<close> after the \<^verbatim>\<open>NULL\<close> check.\<close>
definition base_dist_rejected :: "env \<Rightarrow> u64 \<Rightarrow> int \<Rightarrow> bool" where
  "base_dist_rejected w flags base_dist =
     ((flags AND OBMM_IMPORT_FLAG_NUMA_REMOTE w) \<noteq> 0
      \<and> (flags AND OBMM_IMPORT_FLAG_PREIMPORT w) = 0
      \<and> (base_dist < 0 \<or> 255 < base_dist))"

text \<open>The command \<open>obmm_preimport\<close> and \<open>obmm_unpreimport\<close> fill from the structure.\<close>
definition preimport_cmd :: "obmm_preimport_info \<Rightarrow> u64 \<Rightarrow> obmm_cmd_preimport" where
  "preimport_cmd preimport_info flags =
     \<lparr>pc_pa = pi_pa preimport_info, pc_length = pi_length preimport_info,
      pc_base_dist = pi_base_dist preimport_info,
      pc_numa_id = pi_numa_id preimport_info,
      pc_scna = pi_scna preimport_info, pc_dcna = pi_dcna preimport_info,
      pc_priv_len = pi_priv_len preimport_info,
      pc_priv = pi_priv preimport_info, pc_flags = flags,
      pc_deid = take 16 (pi_deid preimport_info),
      pc_seid = take 16 (pi_seid preimport_info)\<rparr>"

text \<open>
  Among the events a call added there is an \<^verbatim>\<open>ioctl\<close> of the given request that
  returned a value that is not negative.
\<close>
definition ioctl_succeeded :: "ioctl_request \<Rightarrow> state \<Rightarrow> state \<Rightarrow> bool" where
  "ioctl_succeeded req st st' =
     list_ex (\<lambda>ev. case ev of Ev_ioctl q r \<Rightarrow> q = req \<and> 0 \<le> r | _ \<Rightarrow> False)
       (new_events st st')"

text \<open>
  The notions of the resolution of an endpoint id, in the words of the specification.
  A slot is located when the fixed pattern matches a directory whose name fits the buffer
  of the caller.
\<close>
definition slot_dir :: "env \<Rightarrow> nat \<Rightarrow> string option" where
  "slot_dir w i =
     (case glob_ubc w i of
        Glob_match p \<Rightarrow> if length p < MAX_PATH then Some p else None
      | _ \<Rightarrow> None)"

text \<open>
  An attribute parses when its file (at the path of at most \<open>MAX_PATH - 1\<close> characters)
  holds a number, decimal or hexadecimal, in the representable range of integers.
\<close>
definition attr_integer :: "env \<Rightarrow> string \<Rightarrow> string \<Rightarrow> int option" where
  "attr_integer w dir attr =
     (case sysfs_file w (take (MAX_PATH - 1) (dir @ ''/'' @ attr)) of
        Strtol_long v \<Rightarrow> if INT_MIN \<le> v \<and> v \<le> INT_MAX then Some v else None
      | _ \<Rightarrow> None)"

text \<open>The attribute parses and its number is not negative.\<close>
definition attr_nonneg :: "env \<Rightarrow> string \<Rightarrow> string \<Rightarrow> int option" where
  "attr_nonneg w dir attr =
     (case attr_integer w dir attr of
        Some v \<Rightarrow> if 0 \<le> v then Some v else None
      | None \<Rightarrow> None)"

text \<open>
  The parsed integer, zero-extended into a buffer of 16 bytes: the 32-bit value as an
  unsigned number of 16 bytes, least significant byte first. Byte \<open>k\<close> is the \<open>k\<close>-th
  digit of the value in base 256.
\<close>
definition zero_extend :: "int \<Rightarrow> u8 list" where
  "zero_extend v = map (\<lambda>k. word_of_int (v mod 2 ^ 32 div 256 ^ k)) [0..<16]"

datatype resolution = Resolved nat string | NotFound | ReadError

text \<open>
  The resolution as the specification words it, for a notion \<open>parse\<close> of an attribute that
  parses: the slots are tried in the order given; a slot that is not located is passed
  over; an attribute that does not parse is a read error; a slot matches when its number,
  zero-extended to 16 bytes, is the requested id byte for byte; the first match wins; with
  no match the resolution fails.
\<close>
fun resolve_with ::
  "(env \<Rightarrow> string \<Rightarrow> string \<Rightarrow> int option) \<Rightarrow> env \<Rightarrow> u8 list \<Rightarrow> nat list \<Rightarrow> resolution" where
  "resolve_with parse w eid [] = NotFound"
| "resolve_with parse w eid (i # slots) =
     (case slot_dir w i of
        None \<Rightarrow> resolve_with parse w eid slots
      | Some dir \<Rightarrow>
          (case parse w dir ''eid'' of
             None \<Rightarrow> ReadError
           | Some v \<Rightarrow>
               if zero_extend v = take 16 eid then Resolved i dir
               else resolve_with parse w eid slots))"

text \<open>
  The resolution of the specification (every integer parses), and the one in which a
  negative number is a read error as well.
\<close>
definition resolve_spec :: "env \<Rightarrow> u8 list \<Rightarrow> nat list \<Rightarrow> resolution" where
  "resolve_spec = resolve_with attr_integer"

definition resolve_nonneg :: "env \<Rightarrow> u8 list \<Rightarrow> nat list \<Rightarrow> resolution" where
  "resolve_nonneg = resolve_with attr_nonneg"

text \<open>No located slot among the given ones has an \<^verbatim>\<open>eid\<close> that parses to a negative number.\<close>
definition no_negative_eid :: "env \<Rightarrow> nat list \<Rightarrow> bool" where
  "no_negative_eid w slots =
     list_all (\<lambda>i. case slot_dir w i of
                      None \<Rightarrow> True
                    | Some dir \<Rightarrow>
                        (case attr_integer w dir ''eid'' of None \<Rightarrow> True | Some v \<Rightarrow> 0 \<le> v))
       slots"

text \<open>The slots a list of events asked \<^verbatim>\<open>glob\<close> for, in order.\<close>
fun glob_slots :: "event list \<Rightarrow> nat list" where
  "glob_slots [] = []"
| "glob_slots (Ev_glob i # es) = i # glob_slots es"
| "glob_slots (e # es) = glob_slots es"

section \<open>Sample machines\<close>

text \<open>
  One controller, in slot 3, with endpoint id 0x1234, mapping index 3, NUMA node 1 and
  primary channel 5; the device opens and accepts every command.
\<close>
definition example_dir :: string where
  "example_dir = ''/sys/devices/ub_bus_controller3/00003''"

definition example_sysfs :: "string \<Rightarrow> file_read" where
  "example_sysfs p =
     (if p = example_dir @ ''/eid'' then Strtol_long 4660
      else if p = example_dir @ ''/ummu_map'' then Strtol_long 3
      else if p = example_dir @ ''/numa'' then Strtol_long 1
      else if p = example_dir @ ''/primary_cna'' then Strtol_long 5
      else Fopen_fails)"

definition example_eid :: "u8 list" where
  "example_eid = [52, 18, 0, 0, 0, 0, 0, 0, 0, 0, 0, 0, 0, 0, 0, 0]"

definition example_env :: env where
  "example_env =
     \<lparr>OBMM_IMPORT_FLAG_NUMA_REMOTE = 4, OBMM_IMPORT_FLAG_PREIMPORT = 2,
      OBMM_MAX_LOCAL_NUMA_NODES = 16, OBMM_MAX_VENDOR_LEN = 128,
      open_ret = 3, open_errno = 0,
      glob_ubc = (\<lambda>i. if i = 3 then Glob_match example_dir else Glob_nomatch),
      sysfs_file = example_sysfs,
      calloc_ok = True, free_errno = None,
      dev_addr_query = (\<lambda>fd cmd. (0, 0, cmd\<lparr>aq_pa := 8192, aq_mem_id := 42, aq_offset := 16\<rparr>)),
      dev_export_pid = (\<lambda>fd cmd. (0, 0, cmd\<lparr>ep_uba := 4096, ep_tokenid := 7, ep_mem_id := 42\<rparr>)),
      dev_export = (\<lambda>fd cmd. (0, 0, cmd\<lparr>ex_uba := 4096, ex_tokenid := 7, ex_mem_id := 42\<rparr>)),
      dev_import = (\<lambda>fd cmd. (0, 0, cmd\<lparr>im_mem_id := 43, im_numa_id := 2\<rparr>)),
      dev_unexport = (\<lambda>fd cmd. (0, 0, cmd)),
      dev_unimport = (\<lambda>fd cmd. (0, 0, cmd)),
      dev_declare_preimport = (\<lambda>fd cmd. (0, 0, cmd\<lparr>pc_numa_id := 2\<rparr>)),
      dev_undeclare_preimport = (\<lambda>fd cmd. (0, 0, cmd))\<rparr>"

definition example_desc :: obmm_mem_desc where
  "example_desc =
     \<lparr>addr = 0, length_d = 0, seid = example_eid, deid = example_eid, tokenid = 0,
      scna = 5, dcna = 9, priv_len = 0, priv = []\<rparr>"

definition init_state :: state where
  "init_state = \<lparr>errno = 0, obmm_dev_fd = - 1, trace = []\<rparr>"

text \<open>
  Further samples: the lengths of the scenario of the specification, a machine whose
  device cannot be opened (\<^verbatim>\<open>open\<close> fails with error 2), a descriptor with the all-zero
  destination endpoint id, and the descriptor an export on the sample machine leaves.
\<close>
definition example_lengths :: "u64 list" where
  "example_lengths = 4096 # replicate 15 0"

definition nodev_env :: env where
  "nodev_env = example_env\<lparr>open_ret := - 1, open_errno := 2\<rparr>"

definition zero_desc :: obmm_mem_desc where
  "zero_desc = example_desc\<lparr>deid := replicate 16 0\<rparr>"

definition example_exported :: obmm_mem_desc where
  "example_exported =
     example_desc\<lparr>addr := 4096, length_d := 4096, tokenid := 7, scna := 0, dcna := 0\<rparr>"

text \<open>
  A descriptor whose recorded source channel (9) is not the live one (5), and the states of
  the sample machine after the device is opened and after the channel is resolved.
\<close>
definition stale_desc :: obmm_mem_desc where
  "stale_desc = example_desc\<lparr>scna := 9\<rparr>"

definition example_opened :: state where
  "example_opened = \<lparr>errno = 0, obmm_dev_fd = 3, trace = [Ev_open]\<rparr>"

definition example_resolved :: state where
  "example_resolved =
     \<lparr>errno = 0, obmm_dev_fd = 3,
      trace = [Ev_open, Ev_glob 0, Ev_glob 1, Ev_glob 2, Ev_glob 3,
               Ev_fopen ''/sys/devices/ub_bus_controller3/00003/eid'',
               Ev_fopen ''/sys/devices/ub_bus_controller3/00003/primary_cna'']\<rparr>"

definition example_export_state :: state where
  "example_export_state =
     \<lparr>errno = 0, obmm_dev_fd = 3,
      trace = [Ev_open, Ev_glob 0, Ev_glob 1, Ev_glob 2, Ev_glob 3,
               Ev_fopen ''/sys/devices/ub_bus_controller3/00003/eid'',
               Ev_fopen ''/sys/devices/ub_bus_controller3/00003/ummu_map'',
               Ev_fopen ''/sys/devices/ub_bus_controller3/00003/numa'',
               Ev_calloc, Ev_ioctl OBMM_CMD_EXPORT 0, Ev_free]\<rparr>"

text \<open>
  Preimport structures for the sample machine: one that matches it, one with distance 300
  and one with distance 300 and the stale channel 9. A machine whose device fails every
  command with error 16, and whose \<^verbatim>\<open>free\<close> leaves 12 in \<^verbatim>\<open>errno\<close>.
\<close>
definition example_info :: obmm_preimport_info where
  "example_info =
     \<lparr>pi_pa = 1048576, pi_length = 4096, pi_base_dist = 10, pi_numa_id = - 1,
      pi_seid = example_eid, pi_deid = example_eid, pi_scna = 5, pi_dcna = 0,
      pi_priv_len = 0, pi_priv = []\<rparr>"

definition far_info :: obmm_preimport_info where
  "far_info = example_info\<lparr>pi_base_dist := 300\<rparr>"

definition far_stale_info :: obmm_preimport_info where
  "far_stale_info = example_info\<lparr>pi_base_dist := 300, pi_scna := 9\<rparr>"

definition failing_env :: env where
  "failing_env =
     example_env\<lparr>free_errno := Some 12,
       dev_addr_query := (\<lambda>fd cmd. (- 1, 16, cmd)),
       dev_export_pid := (\<lambda>fd cmd. (- 1, 16, cmd)),
       dev_export := (\<lambda>fd cmd. (- 1, 16, cmd)),
       dev_import := (\<lambda>fd cmd. (- 1, 16, cmd)),
       dev_declare_preimport := (\<lambda>fd cmd. (- 1, 16, cmd))\<rparr>"

text \<open>The sample machine with a controller whose \<^verbatim>\<open>ummu_map\<close> attribute reads 31.\<close>
definition env31 :: env where
  "env31 =
     example_env\<lparr>sysfs_file :=
       (\<lambda>p. if p = example_dir @ ''/ummu_map'' then Strtol_long 31 else example_sysfs p)\<rparr>"

text \<open>
  The sample machine with one more controller, in slot 1, whose \<^verbatim>\<open>eid\<close> attribute holds
  no number.
\<close>
definition garbled_env :: env where
  "garbled_env =
     example_env\<lparr>
       glob_ubc := (\<lambda>i. if i = 1 then Glob_match ''/sys/devices/ub_bus_controller1/00001''
                        else if i = 3 then Glob_match example_dir else Glob_nomatch),
       sysfs_file := (\<lambda>p. if p = ''/sys/devices/ub_bus_controller1/00001/eid''
                          then Strtol_nothing else example_sysfs p)\<rparr>"

text \<open>
  The sample machine with one more controller, in slot 1, whose \<^verbatim>\<open>eid\<close> attribute reads
  \<open>-5\<close>.
\<close>
definition negative_env :: env where
  "negative_env =
     example_env\<lparr>
       glob_ubc := (\<lambda>i. if i = 1 then Glob_match ''/sys/devices/ub_bus_controller1/00001''
                        else if i = 3 then Glob_match example_dir else Glob_nomatch),
       sysfs_file := (\<lambda>p. if p = ''/sys/devices/ub_bus_controller1/00001/eid''
                          then Strtol_long (- 5) else example_sysfs p)\<rparr>"

text \<open>
  The sample machine with a device that accepts an import and replies with mem_id 0 and
  NUMA node 2.
\<close>
definition zero_id_env :: env where
  "zero_id_env =
     example_env\<lparr>dev_import := (\<lambda>fd cmd. (0, 0, cmd\<lparr>im_mem_id := 0, im_numa_id := 2\<rparr>))\<rparr>"

section \<open>Auxiliary facts\<close>

lemma sysfs_step_refl: "sysfs_step st st"
  by (simp add: sysfs_step_def)

lemma sysfs_step_errno: "sysfs_step st st' \<Longrightarrow> sysfs_step st (st'\<lparr>errno := e\<rparr>)"
  by (simp add: sysfs_step_def)

lemma sysfs_step_trans: "sysfs_step st st1 \<Longrightarrow> sysfs_step st1 st2 \<Longrightarrow> sysfs_step st st2"
  by (auto simp: sysfs_step_def)

lemma read_int_from_file_step:
  "read_int_from_file w path st = (r, st') \<Longrightarrow> sysfs_step st st'"
  by (auto simp: read_int_from_file_def sysfs_step_def emit_def sysfs_event_def Let_def
           split: file_read.splits if_splits)

lemma get_ubc_attr_step:
  "get_ubc_attr w p a st = (r, st') \<Longrightarrow> sysfs_step st st'"
  by (auto simp: get_ubc_attr_def Let_def sysfs_step_refl split: if_splits
           dest: read_int_from_file_step)

lemma get_ubc_path_step:
  "get_ubc_path w i p l st = (r, p', st') \<Longrightarrow> sysfs_step st st'"
  by (auto simp: get_ubc_path_def sysfs_step_def emit_def sysfs_event_def Let_def
           split: glob_result.splits if_splits)

lemma get_ubc_by_eid_from_step:
  "get_ubc_by_eid_from w i p l eid st = (r, idx, p', st') \<Longrightarrow> sysfs_step st st'"
proof (induction n \<equiv> "MAX_CONTROLLERS - i" arbitrary: i p st)
  case 0
  then have "\<not> i < MAX_CONTROLLERS" by simp
  with "0.prems" show ?case
    by (subst (asm) get_ubc_by_eid_from.simps) (auto simp: sysfs_step_errno sysfs_step_refl)
next
  case (Suc n)
  have lt: "i < MAX_CONTROLLERS" and n: "n = MAX_CONTROLLERS - (i + 1)"
    using Suc.hyps(2) by arith+
  note IH = Suc.hyps(1)[OF n]
  obtain ret p1 st1 where gp: "get_ubc_path w i p l st = (ret, p1, st1)"
    by (cases "get_ubc_path w i p l st") auto
  obtain ret2 st2 where ga: "get_ubc_attr w p1 ''eid'' st1 = (ret2, st2)"
    by (cases "get_ubc_attr w p1 ''eid'' st1") auto
  have s1: "sysfs_step st st1" using gp by (rule get_ubc_path_step)
  have s2: "sysfs_step st1 st2" using ga by (rule get_ubc_attr_step)
  have s12: "sysfs_step st st2" using s1 s2 by (rule sysfs_step_trans)
  have unf: "get_ubc_by_eid_from w i p l eid st =
     (if ret \<noteq> 0 then get_ubc_by_eid_from w (i + 1) p1 l eid st1
      else if ret2 < 0 then (- 1, None, p1, st2\<lparr>errno := ENODEV\<rparr>)
      else if \<not> memcmp_eq (sysfs_eid_of ret2) eid EID_SIZE then
        get_ubc_by_eid_from w (i + 1) p1 l eid st2
      else (0, Some i, p1, st2))"
    by (subst get_ubc_by_eid_from.simps) (simp add: lt gp ga)
  consider (skip) "ret \<noteq> 0" | (err) "ret = 0" "ret2 < 0"
    | (mism) "ret = 0" "\<not> ret2 < 0" "\<not> memcmp_eq (sysfs_eid_of ret2) eid EID_SIZE"
    | (hit) "ret = 0" "\<not> ret2 < 0" "memcmp_eq (sysfs_eid_of ret2) eid EID_SIZE"
    by blast
  then show ?case
  proof cases
    case skip
    with Suc.prems unf have "get_ubc_by_eid_from w (i + 1) p1 l eid st1 = (r, idx, p', st')"
      by simp
    then have "sysfs_step st1 st'" by (rule IH)
    with s1 show ?thesis by (rule sysfs_step_trans)
  next
    case err
    with Suc.prems unf have "st' = st2\<lparr>errno := ENODEV\<rparr>" by simp
    with s12 show ?thesis by (simp add: sysfs_step_errno)
  next
    case mism
    with Suc.prems unf have "get_ubc_by_eid_from w (i + 1) p1 l eid st2 = (r, idx, p', st')"
      by simp
    then have "sysfs_step st2 st'" by (rule IH)
    with s12 show ?thesis by (rule sysfs_step_trans)
  next
    case hit
    with Suc.prems unf have "st' = st2" by simp
    with s12 show ?thesis by simp
  qed
qed

lemma get_ubc_by_eid_step:
  "get_ubc_by_eid w p l eid st = (r, idx, p', st') \<Longrightarrow> sysfs_step st st'"
  unfolding get_ubc_by_eid_def by (rule get_ubc_by_eid_from_step)

lemma new_events_self: "new_events st st = []"
  by (simp add: new_events_def)

lemma new_events_errno: "new_events st (st'\<lparr>errno := e\<rparr>) = new_events st st'"
  by (simp add: new_events_def)

lemma get_fd_facts:
  assumes "obmm_dev_get_fd w st = (fd, st1)"
  shows "new_events st st1 = (if obmm_dev_fd st < 0 then [Ev_open] else [])"
    and "trace st1 = trace st @ new_events st st1"
    and "errno st1 = (if fd < 0 then open_errno w else 0)"
  using assms
  by (auto simp: obmm_dev_get_fd_def new_events_def emit_def Let_def split: if_splits)

lemma zero_deid: "take 16 (deid desc) = replicate 16 0 \<Longrightarrow> memcmp_eq (deid desc) g_invalid_eid 16"
  by (simp add: memcmp_eq_def g_invalid_eid_def)

lemma add_lengths_sum:
  "n \<le> length L \<Longrightarrow> i \<le> n \<Longrightarrow> add_lengths L n i acc = acc + sum_list (drop i (take n L))"
proof (induction k \<equiv> "n - i" arbitrary: i acc)
  case 0
  then show ?case by (subst add_lengths.simps) simp
next
  case (Suc k)
  then have lt: "i < n" and k: "k = n - (i + 1)" by arith+
  have "drop i (take n L) = L ! i # drop (i + 1) (take n L)"
    using Cons_nth_drop_Suc[of i "take n L"] lt Suc.prems(1) by simp
  with Suc.hyps(1)[OF k Suc.prems(1), of "acc + L ! i"] lt show ?case
    by (subst add_lengths.simps) (simp add: add.assoc)
qed

lemma export_frame:
  assumes res: "obmm_export w (Some L) flags (Some desc) st = Some (mid, dp, st')"
  shows "(dp = Some desc \<and> mid = OBMM_INVALID_MEMID)
       \<or> (OBMM_MAX_LOCAL_NUMA_NODES w \<le> length L
           \<and> (\<exists>uba tok. dp = Some (desc\<lparr>addr := uba, tokenid := tok, scna := 0, dcna := 0,
                  length_d := sum_list (take (OBMM_MAX_LOCAL_NUMA_NODES w) L)\<rparr>)))"
proof -
  obtain fd st1 where fd: "obmm_dev_get_fd w st = (fd, st1)"
    by (cases "obmm_dev_get_fd w st") auto
  show ?thesis
  proof (cases "fd < 0")
    case True
    with res fd show ?thesis by (simp add: obmm_export_def)
  next
    case fdok: False
    show ?thesis
    proof (cases "length L < OBMM_MAX_LOCAL_NUMA_NODES w")
      case True
      with res fd fdok show ?thesis by (simp add: obmm_export_def)
    next
      case len: False
      show ?thesis
      proof (cases "vendor_adapt_export w desc st1")
        case None
        with res fd fdok len show ?thesis by (simp add: obmm_export_def)
      next
        case (Some v)
        obtain ret vinfo numa st2 where v: "v = (ret, vinfo, numa, st2)"
          by (cases v) auto
        show ?thesis
        proof (cases "ret \<noteq> 0")
          case True
          with res fd fdok len Some v show ?thesis by (simp add: obmm_export_def Let_def)
        next
          case False
          with res fd fdok len Some v show ?thesis
            by (auto simp: obmm_export_def Let_def add_lengths_sum split: prod.splits if_splits)
        qed
      qed
    qed
  qed
qed

lemma export_useraddr_frame:
  assumes res: "obmm_export_useraddr w pid va len flags (Some desc) st = Some (mid, dp, st')"
  shows "(dp = Some desc \<and> mid = OBMM_INVALID_MEMID)
       \<or> (\<exists>uba tok. dp = Some (desc\<lparr>addr := uba, length_d := len, tokenid := tok,
              scna := 0, dcna := 0\<rparr>))"
proof -
  obtain fd st1 where fd: "obmm_dev_get_fd w st = (fd, st1)"
    by (cases "obmm_dev_get_fd w st") auto
  show ?thesis
  proof (cases "fd < 0")
    case True
    with res fd show ?thesis by (simp add: obmm_export_useraddr_def)
  next
    case fdok: False
    show ?thesis
    proof (cases "vendor_adapt_export w desc st1")
      case None
      with res fd fdok show ?thesis by (simp add: obmm_export_useraddr_def)
    next
      case (Some v)
      obtain ret vinfo numa st2 where v: "v = (ret, vinfo, numa, st2)"
        by (cases v) auto
      show ?thesis
      proof (cases "ret \<noteq> 0")
        case True
        with res fd fdok Some v show ?thesis by (simp add: obmm_export_useraddr_def Let_def)
      next
        case False
        with res fd fdok Some v show ?thesis
          by (auto simp: obmm_export_useraddr_def Let_def split: prod.splits if_splits)
      qed
    qed
  qed
qed

lemma get_ctl_by_eid_step:
  assumes "get_ctl_by_eid w eid st = (node, st')"
  shows "sysfs_step st st'"
proof -
  obtain ret idx p st1 where g: "get_ubc_by_eid w [] MAX_PATH eid st = (ret, idx, p, st1)"
    by (cases "get_ubc_by_eid w [] MAX_PATH eid st") auto
  obtain m st2 where a1: "get_ubc_attr w p ''ummu_map'' st1 = (m, st2)"
    by (cases "get_ubc_attr w p ''ummu_map'' st1") auto
  obtain n st3 where a2: "get_ubc_attr w p ''numa'' st2 = (n, st3)"
    by (cases "get_ubc_attr w p ''numa'' st2") auto
  have s1: "sysfs_step st st1" using g by (rule get_ubc_by_eid_step)
  have s2: "sysfs_step st st2" using s1 get_ubc_attr_step[OF a1] by (rule sysfs_step_trans)
  have s3: "sysfs_step st st3" using s2 get_ubc_attr_step[OF a2] by (rule sysfs_step_trans)
  from assms have "st' = st1 \<or> st' = st2 \<or> st' = st3"
    by (simp add: get_ctl_by_eid_def g a1 a2 Let_def split: if_splits)
  with s1 s2 s3 show ?thesis by blast
qed

lemma get_primary_cna_by_eid_step:
  assumes "get_primary_cna_by_eid w eid st = (r, cna, st')"
  shows "sysfs_step st st'"
proof -
  obtain ret idx p st1 where g: "get_ubc_by_eid w [] MAX_PATH eid st = (ret, idx, p, st1)"
    by (cases "get_ubc_by_eid w [] MAX_PATH eid st") auto
  obtain c st2 where a1: "get_ubc_attr w p ''primary_cna'' st1 = (c, st2)"
    by (cases "get_ubc_attr w p ''primary_cna'' st1") auto
  have s1: "sysfs_step st st1" using g by (rule get_ubc_by_eid_step)
  have s2: "sysfs_step st st2" using s1 get_ubc_attr_step[OF a1] by (rule sysfs_step_trans)
  from assms have "st' = st1 \<or> st' = st2 \<or> st' = st2\<lparr>errno := ENODEV\<rparr>"
    by (simp add: get_primary_cna_by_eid_def g a1 split: if_splits)
  with s1 s2 sysfs_step_errno[OF s2] show ?thesis by blast
qed

lemma get_ubc_by_eid_from_unfold:
  assumes "i < MAX_CONTROLLERS"
      and "get_ubc_path w i p l st = (ret, p1, st1)"
      and "get_ubc_attr w p1 ''eid'' st1 = (ret2, st2)"
  shows "get_ubc_by_eid_from w i p l eid st =
     (if ret \<noteq> 0 then get_ubc_by_eid_from w (i + 1) p1 l eid st1
      else if ret2 < 0 then (- 1, None, p1, st2\<lparr>errno := ENODEV\<rparr>)
      else if \<not> memcmp_eq (sysfs_eid_of ret2) eid EID_SIZE then
        get_ubc_by_eid_from w (i + 1) p1 l eid st2
      else (0, Some i, p1, st2))"
  by (subst get_ubc_by_eid_from.simps) (simp add: assms)

lemma get_ubc_by_eid_from_done:
  "\<not> i < MAX_CONTROLLERS \<Longrightarrow>
     get_ubc_by_eid_from w i p l eid st = (- 1, None, p, st\<lparr>errno := ENODEV\<rparr>)"
  by (subst get_ubc_by_eid_from.simps) simp

text \<open>failure of the scan leaves ENODEV\<close>
lemma get_ubc_by_eid_from_fail:
  "get_ubc_by_eid_from w i p l eid st = (r, idx, p', st') \<Longrightarrow>
     (r = 0 \<or> (r = - 1 \<and> errno st' = ENODEV))"
proof (induction n \<equiv> "MAX_CONTROLLERS - i" arbitrary: i p st)
  case 0
  then have "\<not> i < MAX_CONTROLLERS" by simp
  with "0.prems" show ?case
    by (auto simp: get_ubc_by_eid_from_done)
next
  case (Suc n)
  have lt: "i < MAX_CONTROLLERS" and n: "n = MAX_CONTROLLERS - (i + 1)"
    using Suc.hyps(2) by arith+
  note IH = Suc.hyps(1)[OF n]
  obtain ret p1 st1 where gp: "get_ubc_path w i p l st = (ret, p1, st1)"
    by (cases "get_ubc_path w i p l st") auto
  obtain ret2 st2 where ga: "get_ubc_attr w p1 ''eid'' st1 = (ret2, st2)"
    by (cases "get_ubc_attr w p1 ''eid'' st1") auto
  from Suc.prems show ?case
    unfolding get_ubc_by_eid_from_unfold[OF lt gp ga]
    by (auto split: if_splits dest: IH[simplified])
qed

lemma get_primary_cna_by_eid_result:
  assumes "get_primary_cna_by_eid w eid st = (r, cna, st')"
  shows "(r = 0 \<and> (\<exists>c. cna = Some c)) \<or> (r = - 1 \<and> cna = None \<and> errno st' = ENODEV)"
proof -
  obtain ret idx p st1 where g: "get_ubc_by_eid w [] MAX_PATH eid st = (ret, idx, p, st1)"
    by (cases "get_ubc_by_eid w [] MAX_PATH eid st") auto
  obtain c st2 where a1: "get_ubc_attr w p ''primary_cna'' st1 = (c, st2)"
    by (cases "get_ubc_attr w p ''primary_cna'' st1") auto
  have "ret = 0 \<or> (ret = - 1 \<and> errno st1 = ENODEV)"
    using g unfolding get_ubc_by_eid_def by (rule get_ubc_by_eid_from_fail)
  with assms show ?thesis
    by (auto simp: get_primary_cna_by_eid_def g a1 split: if_splits)
qed

lemma obmm_import_Some:
  "obmm_import w (Some desc) flags base_dist numa_ptr st =
     (if base_dist_rejected w flags base_dist then
        (OBMM_INVALID_MEMID, numa_ptr, st\<lparr>errno := EINVAL\<rparr>)
      else
        (case obmm_dev_get_fd w st of (fd, st1) \<Rightarrow>
           if fd < 0 then (OBMM_INVALID_MEMID, numa_ptr, st1)
           else
             (case vendor_fixup_import_cmd w (import_cmd desc flags base_dist numa_ptr) st1 of
                (ret0, st2) \<Rightarrow>
                  if ret0 \<noteq> 0 then (OBMM_INVALID_MEMID, numa_ptr, st2)
                  else
                    (case ioctl OBMM_CMD_IMPORT
                            (dev_import w fd (import_cmd desc flags base_dist numa_ptr)) st2 of
                       (ret', cmd', st3) \<Rightarrow>
                         if ret' < 0 then (OBMM_INVALID_MEMID, numa_ptr, st3)
                         else (im_mem_id cmd',
                               (case numa_ptr of None \<Rightarrow> None
                                | Some old \<Rightarrow> Some (im_numa_id cmd')),
                               st3)))))"
proof (cases "base_dist_rejected w flags base_dist")
  case True
  then show ?thesis
    by (simp add: obmm_import_def base_dist_rejected_def UINT8_MAX_def)
next
  case False
  then have g: "\<not> (((flags AND OBMM_IMPORT_FLAG_NUMA_REMOTE w) \<noteq> 0
              \<and> (flags AND OBMM_IMPORT_FLAG_PREIMPORT w) = 0)
             \<and> (base_dist < 0 \<or> base_dist > UINT8_MAX))"
    by (auto simp: base_dist_rejected_def UINT8_MAX_def)
  have c: "import_cmd desc flags base_dist numa_ptr =
        (case numa_ptr of
           Some n \<Rightarrow> (fill_import_cmd_info desc flags base_dist)\<lparr>im_mem_id := 0\<rparr>\<lparr>im_numa_id := n\<rparr>
         | None \<Rightarrow> (fill_import_cmd_info desc flags base_dist)\<lparr>im_mem_id := 0\<rparr>\<lparr>im_numa_id := NUMA_NO_NODE\<rparr>)"
    by (simp add: import_cmd_def split: option.splits)
  have e: "\<And>s :: state. s\<lparr>errno := errno s\<rparr> = s" by simp
  show ?thesis
    unfolding obmm_import_def option.case if_not_P[OF g] Let_def c[symmetric]
      vendor_cleanup_import_cmd_def e
    by (simp add: False)
qed

lemma import_checked:
  assumes nr: "\<not> base_dist_rejected w flags base_dist"
      and fd: "obmm_dev_get_fd w st = (fd, st1)" and ok: "0 \<le> fd"
      and cna: "get_primary_cna_by_eid w (take 16 (seid desc)) st1 = (r, cna, st2)"
      and dev: "dev_import w fd (import_cmd desc flags base_dist numa_ptr) = (ret, e, cmd')"
  shows "obmm_import w (Some desc) flags base_dist numa_ptr st =
     (if cna \<noteq> Some (scna desc) then (OBMM_INVALID_MEMID, numa_ptr, st2\<lparr>errno := ENODEV\<rparr>)
      else if ret < 0 then
        (OBMM_INVALID_MEMID, numa_ptr, emit (Ev_ioctl OBMM_CMD_IMPORT ret) (st2\<lparr>errno := e\<rparr>))
      else
        (im_mem_id cmd',
         (case numa_ptr of None \<Rightarrow> None | Some old \<Rightarrow> Some (im_numa_id cmd')),
         emit (Ev_ioctl OBMM_CMD_IMPORT ret) st2))"
proof -
  have s: "im_seid (import_cmd desc flags base_dist numa_ptr) = take 16 (seid desc)"
          "im_scna (import_cmd desc flags base_dist numa_ptr) = scna desc"
    by (simp_all add: import_cmd_def fill_import_cmd_info_def)
  have r: "(r = 0 \<and> (\<exists>c. cna = Some c)) \<or> (r = - 1 \<and> cna = None \<and> errno st2 = ENODEV)"
    using cna by (rule get_primary_cna_by_eid_result)
  have fx: "vendor_fixup_import_cmd w (import_cmd desc flags base_dist numa_ptr) st1 =
        (if cna \<noteq> Some (scna desc) then (- 1, st2\<lparr>errno := ENODEV\<rparr>) else (0, st2))"
    using r by (auto simp: vendor_fixup_import_cmd_def s cna)
  have io: "ioctl OBMM_CMD_IMPORT (dev_import w fd (import_cmd desc flags base_dist numa_ptr)) st2 =
        (ret, cmd', emit (Ev_ioctl OBMM_CMD_IMPORT ret) (st2\<lparr>errno := (if ret < 0 then e else errno st2)\<rparr>))"
    by (simp add: ioctl_def dev)
  show ?thesis
    using nr ok by (simp add: obmm_import_Some fd fx io emit_def)
qed

lemma sysfs_step_new_events:
  "sysfs_step st st' \<Longrightarrow>
     trace st' = trace st @ new_events st st' \<and> list_all sysfs_event (new_events st st')
     \<and> obmm_dev_fd st' = obmm_dev_fd st"
  by (auto simp: sysfs_step_def new_events_def)

lemma unat_sum_list:
  "unat (sum_list xs :: u64) = sum_list (map unat xs) mod 2 ^ 64"
proof (induction xs)
  case Nil
  show ?case by simp
next
  case (Cons x xs)
  have "unat (x + sum_list xs) = (unat x + unat (sum_list xs)) mod 2 ^ 64"
    by (simp add: unat_word_ariths)
  also have "\<dots> = (unat x + sum_list (map unat xs) mod 2 ^ 64) mod 2 ^ 64"
    by (simp only: Cons.IH)
  also have "\<dots> = (unat x + sum_list (map unat xs)) mod 2 ^ 64"
    by (rule mod_add_right_eq)
  finally show ?case by simp
qed

lemma obmm_preimport_Some:
  "obmm_preimport w (Some info) flags st =
     (if pi_base_dist info < 0 \<or> 255 < pi_base_dist info then
        (- 1, Some info, st\<lparr>errno := EINVAL\<rparr>)
      else
        (case obmm_dev_get_fd w st of (fd, st1) \<Rightarrow>
           if fd < 0 then (fd, Some info, st1)
           else
             (case vendor_fixup_preimport_cmd w (preimport_cmd info flags) st1 of
                (ret0, st2) \<Rightarrow>
                  if ret0 \<noteq> 0 then (ret0, Some info, st2)
                  else
                    (case ioctl OBMM_CMD_DECLARE_PREIMPORT
                            (dev_declare_preimport w fd (preimport_cmd info flags)) st2 of
                       (ret', cmd', st3) \<Rightarrow>
                         if ret' < 0 then (ret', Some info, st3)
                         else (0, Some (info\<lparr>pi_numa_id := pc_numa_id cmd'\<rparr>), st3)))))"
proof -
  have e: "\<And>s :: state. s\<lparr>errno := errno s\<rparr> = s" by simp
  show ?thesis
    unfolding obmm_preimport_def option.case Let_def preimport_cmd_def[symmetric]
      vendor_cleanup_preimport_cmd_def e UINT8_MAX_def
    by simp
qed

lemma obmm_unpreimport_Some:
  assumes fd: "obmm_dev_get_fd w st = (fd, st1)"
      and dev: "dev_undeclare_preimport w fd (preimport_cmd info flags) = (ret, e, cmd')"
  shows "obmm_unpreimport w (Some info) flags st =
     (if fd < 0 then (fd, st1)
      else (ret, emit (Ev_ioctl OBMM_CMD_UNDECLARE_PREIMPORT ret)
                   (st1\<lparr>errno := (if ret < 0 then e else errno st1)\<rparr>)))"
  unfolding obmm_unpreimport_def option.case Let_def preimport_cmd_def[symmetric]
  by (simp add: fd dev ioctl_def)

lemma preimport_checked:
  assumes nr: "\<not> (pi_base_dist info < 0 \<or> 255 < pi_base_dist info)"
      and fd: "obmm_dev_get_fd w st = (fd, st1)" and ok: "0 \<le> fd"
      and cna: "get_primary_cna_by_eid w (take 16 (pi_seid info)) st1 = (r, cna, st2)"
      and dev: "dev_declare_preimport w fd (preimport_cmd info flags) = (ret, e, cmd')"
  shows "obmm_preimport w (Some info) flags st =
     (if cna \<noteq> Some (pi_scna info) then (- 1, Some info, st2\<lparr>errno := ENODEV\<rparr>)
      else if ret < 0 then
        (ret, Some info, emit (Ev_ioctl OBMM_CMD_DECLARE_PREIMPORT ret) (st2\<lparr>errno := e\<rparr>))
      else
        (0, Some (info\<lparr>pi_numa_id := pc_numa_id cmd'\<rparr>),
         emit (Ev_ioctl OBMM_CMD_DECLARE_PREIMPORT ret) st2))"
proof -
  have s: "pc_seid (preimport_cmd info flags) = take 16 (pi_seid info)"
          "pc_scna (preimport_cmd info flags) = pi_scna info"
    by (simp_all add: preimport_cmd_def)
  have r: "(r = 0 \<and> (\<exists>c. cna = Some c)) \<or> (r = - 1 \<and> cna = None \<and> errno st2 = ENODEV)"
    using cna by (rule get_primary_cna_by_eid_result)
  have fx: "vendor_fixup_preimport_cmd w (preimport_cmd info flags) st1 =
        (if cna \<noteq> Some (pi_scna info) then (- 1, st2\<lparr>errno := ENODEV\<rparr>) else (0, st2))"
    using r by (auto simp: vendor_fixup_preimport_cmd_def s cna)
  have io: "ioctl OBMM_CMD_DECLARE_PREIMPORT
               (dev_declare_preimport w fd (preimport_cmd info flags)) st2 =
        (ret, cmd', emit (Ev_ioctl OBMM_CMD_DECLARE_PREIMPORT ret)
                      (st2\<lparr>errno := (if ret < 0 then e else errno st2)\<rparr>))"
    by (simp add: ioctl_def dev)
  show ?thesis
    using nr ok by (simp add: obmm_preimport_Some fd fx io emit_def)
qed

lemma ioctl_succeeded_append:
  assumes "trace st' = trace st @ es @ [Ev_ioctl req r]" and "0 \<le> r"
  shows "ioctl_succeeded req st st'"
  using assms by (simp add: ioctl_succeeded_def new_events_def)

lemma get_fd_trace:
  "obmm_dev_get_fd w st = (fd, st1) \<Longrightarrow> \<exists>es. trace st1 = trace st @ es"
  by (auto simp: obmm_dev_get_fd_def emit_def Let_def split: if_splits)

lemma sysfs_step_trace: "sysfs_step st st' \<Longrightarrow> \<exists>es. trace st' = trace st @ es"
  by (auto simp: sysfs_step_def)

lemma import_outcome:
  assumes res: "obmm_import w desc_ptr flags base_dist numa_ptr st = (mid, numa', st')"
  shows "(mid = OBMM_INVALID_MEMID \<and> numa' = numa_ptr)
       \<or> (ioctl_succeeded OBMM_CMD_IMPORT st st'
           \<and> (\<exists>fd c r e c'. dev_import w fd c = (r, e, c') \<and> 0 \<le> r \<and> mid = im_mem_id c'))"
proof (cases desc_ptr)
  case None
  with res show ?thesis by (simp add: obmm_import_def)
next
  case (Some desc)
  obtain fd st1 where fd: "obmm_dev_get_fd w st = (fd, st1)"
    by (cases "obmm_dev_get_fd w st") auto
  obtain r cna st2 where
    cna: "get_primary_cna_by_eid w (take 16 (seid desc)) st1 = (r, cna, st2)"
    by (cases "get_primary_cna_by_eid w (take 16 (seid desc)) st1") auto
  obtain ret e cmd' where
    dev: "dev_import w fd (import_cmd desc flags base_dist numa_ptr) = (ret, e, cmd')"
    by (cases "dev_import w fd (import_cmd desc flags base_dist numa_ptr)") auto
  show ?thesis
  proof (cases "base_dist_rejected w flags base_dist \<or> fd < 0")
    case True
    with res Some fd show ?thesis
      by (auto simp: obmm_import_Some split: if_splits)
  next
    case False
    then have nr: "\<not> base_dist_rejected w flags base_dist" and ok: "0 \<le> fd" by auto
    note eq = import_checked[OF nr fd ok cna dev]
    show ?thesis
    proof (cases "cna \<noteq> Some (scna desc) \<or> ret < 0")
      case True
      with res Some eq show ?thesis by (auto split: if_splits)
    next
      case False
      with res Some eq have m: "mid = im_mem_id cmd'"
        and s: "st' = emit (Ev_ioctl OBMM_CMD_IMPORT ret) st2" and r0: "0 \<le> ret"
        by (auto split: if_splits)
      obtain es1 where t1: "trace st1 = trace st @ es1"
        using get_fd_trace[OF fd] by blast
      obtain es2 where t2: "trace st2 = trace st1 @ es2"
        using sysfs_step_trace[OF get_primary_cna_by_eid_step[OF cna]] by blast
      have "trace st' = trace st @ (es1 @ es2) @ [Ev_ioctl OBMM_CMD_IMPORT ret]"
        by (simp add: s emit_def t1 t2)
      then have "ioctl_succeeded OBMM_CMD_IMPORT st st'"
        using r0 by (rule ioctl_succeeded_append)
      with m r0 dev show ?thesis by blast
    qed
  qed
qed

lemma preimport_outcome:
  assumes res: "obmm_preimport w info_ptr flags st = (ret, info', st')"
  shows "info' = info_ptr \<or> (ret = 0 \<and> ioctl_succeeded OBMM_CMD_DECLARE_PREIMPORT st st')"
proof (cases info_ptr)
  case None
  with res show ?thesis by (simp add: obmm_preimport_def)
next
  case (Some info)
  obtain fd st1 where fd: "obmm_dev_get_fd w st = (fd, st1)"
    by (cases "obmm_dev_get_fd w st") auto
  obtain r cna st2 where
    cna: "get_primary_cna_by_eid w (take 16 (pi_seid info)) st1 = (r, cna, st2)"
    by (cases "get_primary_cna_by_eid w (take 16 (pi_seid info)) st1") auto
  obtain dret e cmd' where
    dev: "dev_declare_preimport w fd (preimport_cmd info flags) = (dret, e, cmd')"
    by (cases "dev_declare_preimport w fd (preimport_cmd info flags)") auto
  show ?thesis
  proof (cases "(pi_base_dist info < 0 \<or> 255 < pi_base_dist info) \<or> fd < 0")
    case True
    with res Some fd show ?thesis
      by (auto simp: obmm_preimport_Some split: if_splits)
  next
    case False
    then have nr: "\<not> (pi_base_dist info < 0 \<or> 255 < pi_base_dist info)" and ok: "0 \<le> fd"
      by auto
    note eq = preimport_checked[OF nr fd ok cna dev]
    show ?thesis
    proof (cases "cna \<noteq> Some (pi_scna info) \<or> dret < 0")
      case True
      with res Some eq show ?thesis by (auto split: if_splits)
    next
      case False
      with res Some eq have m: "ret = 0"
        and s: "st' = emit (Ev_ioctl OBMM_CMD_DECLARE_PREIMPORT dret) st2" and r0: "0 \<le> dret"
        by (auto split: if_splits)
      obtain es1 where t1: "trace st1 = trace st @ es1"
        using get_fd_trace[OF fd] by blast
      obtain es2 where t2: "trace st2 = trace st1 @ es2"
        using sysfs_step_trace[OF get_primary_cna_by_eid_step[OF cna]] by blast
      have "trace st' = trace st @ (es1 @ es2) @ [Ev_ioctl OBMM_CMD_DECLARE_PREIMPORT dret]"
        by (simp add: s emit_def t1 t2)
      then have "ioctl_succeeded OBMM_CMD_DECLARE_PREIMPORT st st'"
        using r0 by (rule ioctl_succeeded_append)
      with m show ?thesis by blast
    qed
  qed
qed

lemma query_memid_outcome:
  assumes res: "obmm_query_memid_by_pa w pa id_ptr offset_ptr st = (ret, id', offset', st')"
  shows "((id' = id_ptr \<and> offset' = offset_ptr)
          \<or> (ret = 0 \<and> ioctl_succeeded OBMM_CMD_ADDR_QUERY st st'))
       \<and> (id_ptr = None \<longrightarrow> id' = None) \<and> (offset_ptr = None \<longrightarrow> offset' = None)"
proof -
  obtain fd st1 where fd: "obmm_dev_get_fd w st = (fd, st1)"
    by (cases "obmm_dev_get_fd w st") auto
  let ?cmd = "\<lparr>aq_key_type = OBMM_QUERY_BY_PA, aq_pa = pa, aq_mem_id = 0, aq_offset = 0\<rparr>"
  obtain dret e cmd' where dev: "dev_addr_query w fd ?cmd = (dret, e, cmd')"
    by (cases "dev_addr_query w fd ?cmd") auto
  obtain es1 where t1: "trace st1 = trace st @ es1"
    using get_fd_trace[OF fd] by blast
  show ?thesis
  proof (cases "fd < 0 \<or> dret < 0")
    case True
    with res fd dev show ?thesis
      by (auto simp: obmm_query_memid_by_pa_def ioctl_def Let_def split: if_splits option.splits)
  next
    case False
    with res fd dev have r: "ret = 0"
      and s: "st' = emit (Ev_ioctl OBMM_CMD_ADDR_QUERY dret) st1" and r0: "0 \<le> dret"
      and n: "id_ptr = None \<longrightarrow> id' = None" "offset_ptr = None \<longrightarrow> offset' = None"
      by (auto simp: obmm_query_memid_by_pa_def ioctl_def Let_def split: if_splits option.splits)
    have "trace st' = trace st @ es1 @ [Ev_ioctl OBMM_CMD_ADDR_QUERY dret]"
      by (simp add: s emit_def t1)
    then have "ioctl_succeeded OBMM_CMD_ADDR_QUERY st st'"
      using r0 by (rule ioctl_succeeded_append)
    with r n show ?thesis by blast
  qed
qed

lemma query_pa_outcome:
  assumes res: "obmm_query_pa_by_memid w mid offset pa_ptr st = (ret, pa', st')"
  shows "(pa' = pa_ptr \<or> (ret = 0 \<and> ioctl_succeeded OBMM_CMD_ADDR_QUERY st st'))
       \<and> (pa_ptr = None \<longrightarrow> pa' = None)"
proof -
  obtain fd st1 where fd: "obmm_dev_get_fd w st = (fd, st1)"
    by (cases "obmm_dev_get_fd w st") auto
  let ?cmd = "\<lparr>aq_key_type = OBMM_QUERY_BY_ID_OFFSET, aq_pa = 0, aq_mem_id = mid,
               aq_offset = offset\<rparr>"
  obtain dret e cmd' where dev: "dev_addr_query w fd ?cmd = (dret, e, cmd')"
    by (cases "dev_addr_query w fd ?cmd") auto
  obtain es1 where t1: "trace st1 = trace st @ es1"
    using get_fd_trace[OF fd] by blast
  show ?thesis
  proof (cases "fd < 0 \<or> dret < 0")
    case True
    with res fd dev show ?thesis
      by (auto simp: obmm_query_pa_by_memid_def ioctl_def Let_def split: if_splits option.splits)
  next
    case False
    with res fd dev have r: "ret = 0"
      and s: "st' = emit (Ev_ioctl OBMM_CMD_ADDR_QUERY dret) st1" and r0: "0 \<le> dret"
      and n: "pa_ptr = None \<longrightarrow> pa' = None"
      by (auto simp: obmm_query_pa_by_memid_def ioctl_def Let_def split: if_splits option.splits)
    have "trace st' = trace st @ es1 @ [Ev_ioctl OBMM_CMD_ADDR_QUERY dret]"
      by (simp add: s emit_def t1)
    then have "ioctl_succeeded OBMM_CMD_ADDR_QUERY st st'"
      using r0 by (rule ioctl_succeeded_append)
    with r n show ?thesis by blast
  qed
qed

lemma get_ubc_path_slot:
  "get_ubc_path w i p MAX_PATH st =
     (case slot_dir w i of
        Some d \<Rightarrow> (0, d, emit (Ev_glob i) st)
      | None \<Rightarrow> (fst (get_ubc_path w i p MAX_PATH st), p, emit (Ev_glob i) st))
   \<and> (slot_dir w i = None \<longrightarrow> fst (get_ubc_path w i p MAX_PATH st) \<noteq> 0)"
  by (auto simp: get_ubc_path_def slot_dir_def Let_def ENODEV_def EINVAL_def
           split: glob_result.splits)

lemma get_ubc_attr_parsed:
  "get_ubc_attr w dir attr st =
     (case attr_nonneg w dir attr of
        Some v \<Rightarrow> (v, emit (Ev_fopen (take (MAX_PATH - 1) (dir @ ''/'' @ attr))) st)
      | None \<Rightarrow> (fst (get_ubc_attr w dir attr st),
                 emit (Ev_fopen (take (MAX_PATH - 1) (dir @ ''/'' @ attr))) st))
   \<and> (attr_nonneg w dir attr = None \<longrightarrow> fst (get_ubc_attr w dir attr st) < 0)
   \<and> (\<forall>v. attr_nonneg w dir attr = Some v \<longrightarrow> 0 \<le> v)"
  by (auto simp: get_ubc_attr_def attr_nonneg_def attr_integer_def read_int_from_file_def Let_def
                 INT_MAX_def INT_MIN_def
           split: file_read.splits)

lemma uint_byte: "uint (drop_bit n (word_of_int v :: u32)) = v mod 2 ^ 32 div 2 ^ n"
proof -
  have "uint (drop_bit n (word_of_int v :: u32)) =
        drop_bit n (take_bit 32 (uint (word_of_int v :: u32)))"
    using unsigned_drop_bit_eq[where 'a = int and 'b = 32, of n "word_of_int v"] by simp
  also have "uint (word_of_int v :: u32) = take_bit 32 v"
    by (simp only: uint_word_of_int take_bit_eq_mod) simp
  finally show ?thesis
    by (simp only: take_bit_take_bit drop_bit_eq_div take_bit_eq_mod) simp
qed

lemma byte_of_u32:
  "(ucast (drop_bit n (word_of_int v :: u32)) :: u8) = word_of_int (v mod 2 ^ 32 div 2 ^ n)"
proof -
  have "(ucast (drop_bit n (word_of_int v :: u32)) :: u8) =
        word_of_int (uint (drop_bit n (word_of_int v :: u32)))"
    by simp
  then show ?thesis by (simp only: uint_byte)
qed

lemma high_bytes: "4 \<le> k \<Longrightarrow> (v::int) mod 2 ^ 32 div 256 ^ k = 0"
proof -
  assume k: "4 \<le> k"
  have a: "0 \<le> v mod 2 ^ 32" "v mod 2 ^ 32 < 2 ^ 32" by simp_all
  have "(256::int) ^ 4 \<le> 256 ^ k" using k by (intro power_increasing) simp_all
  then have "v mod 2 ^ 32 < 256 ^ k" using a(2) by simp
  with a(1) show ?thesis by (rule div_pos_pos_trivial)
qed

lemma pow256: "(256::int) ^ k = 2 ^ (8 * k)"
proof -
  have "(256::int) = 2 ^ 8" by simp
  then show ?thesis by (simp only: power_mult)
qed

text \<open>The buffer the code compares is the zero-extension of the number it read.\<close>
lemma sysfs_eid_of_zero_extend: "sysfs_eid_of v = zero_extend v"
proof -
  have u: "[0..<16] = [0..<4] @ [4..<16]"
    using upt_add_eq_append[of 0 4 12] by simp
  have l: "map (\<lambda>k. (word_of_int (v mod 2 ^ 32 div 256 ^ k) :: u8)) [4..<16] = replicate 12 0"
  proof -
    have "map (\<lambda>k. (word_of_int (v mod 2 ^ 32 div 256 ^ k) :: u8)) [4..<16]
        = map (\<lambda>k. 0) [4..<16]"
      by (rule map_cong) (simp_all only: high_bytes set_upt atLeastLessThan_iff word_of_int_0)
    also have "\<dots> = replicate (length [4..<16::nat]) 0" by (rule map_replicate_const)
    finally show ?thesis by (simp only: length_upt) simp
  qed
  have f: "map (\<lambda>k. (ucast (drop_bit (8 * k) (word_of_int v :: u32)) :: u8)) [0..<4]
         = map (\<lambda>k. word_of_int (v mod 2 ^ 32 div 256 ^ k)) [0..<4]"
    by (simp only: byte_of_u32 pow256)
  show ?thesis
    unfolding sysfs_eid_of_def zero_extend_def Let_def u map_append f l
    by (simp add: EID_SIZE_def)
qed

lemma memcmp_eq_sysfs_eid:
  "memcmp_eq (sysfs_eid_of v) eid EID_SIZE = (zero_extend v = take 16 eid)"
proof -
  have "length (zero_extend v) = 16" by (simp add: zero_extend_def)
  then show ?thesis
    by (simp add: memcmp_eq_def sysfs_eid_of_zero_extend EID_SIZE_def)
qed

text \<open>
  Where no located slot has a negative \<^verbatim>\<open>eid\<close>, the two resolutions are the same.
\<close>
lemma resolve_nonneg_eq_spec:
  "no_negative_eid w slots \<Longrightarrow> resolve_with attr_nonneg w eid slots = resolve_with attr_integer w eid slots"
  by (induction slots)
     (auto simp: no_negative_eid_def attr_nonneg_def split: option.splits)

lemma glob_slots_append: "glob_slots (a @ b) = glob_slots a @ glob_slots b"
  by (induction a rule: glob_slots.induct) simp_all

lemma get_ubc_path_trace:
  "get_ubc_path w i p l st = (r, p', st') \<Longrightarrow> trace st' = trace st @ [Ev_glob i]"
  by (auto simp: get_ubc_path_def emit_def Let_def split: glob_result.splits if_splits)

lemma get_ubc_attr_trace:
  "get_ubc_attr w d a st = (r, st') \<Longrightarrow> \<exists>es. trace st' = trace st @ es \<and> glob_slots es = []"
  by (auto simp: get_ubc_attr_def read_int_from_file_def emit_def Let_def
           split: file_read.splits if_splits)

lemma scan_from_globs:
  "get_ubc_by_eid_from w k p l eid st = (ret, idx, p', st') \<Longrightarrow> k \<le> MAX_CONTROLLERS \<Longrightarrow>
     \<exists>n es. k + n \<le> MAX_CONTROLLERS \<and> trace st' = trace st @ es \<and> glob_slots es = [k..<k + n]"
proof (induction m \<equiv> "MAX_CONTROLLERS - k" arbitrary: k p st)
  case 0
  then have "\<not> k < MAX_CONTROLLERS" by simp
  with "0.prems"(1) have "trace st' = trace st @ []"
    by (auto simp: get_ubc_by_eid_from_done)
  then show ?case by (intro exI[of _ 0] exI[of _ "[]"]) (simp add: "0.prems"(2))
next
  case (Suc m)
  have lt: "k < MAX_CONTROLLERS" and m: "m = MAX_CONTROLLERS - (k + 1)"
    and le: "k + 1 \<le> MAX_CONTROLLERS"
    using Suc.hyps(2) by arith+
  note IH = Suc.hyps(1)[OF m _ le]
  obtain r1 p1 st1 where gp: "get_ubc_path w k p l st = (r1, p1, st1)"
    by (cases "get_ubc_path w k p l st") auto
  obtain r2 st2 where ga: "get_ubc_attr w p1 ''eid'' st1 = (r2, st2)"
    by (cases "get_ubc_attr w p1 ''eid'' st1") auto
  have t1: "trace st1 = trace st @ [Ev_glob k]" using gp by (rule get_ubc_path_trace)
  obtain fs where t2: "trace st2 = trace st1 @ fs" and g2: "glob_slots fs = []"
    using get_ubc_attr_trace[OF ga] by blast
  note unf = get_ubc_by_eid_from_unfold[OF lt gp ga, of eid]
  have rec: "\<exists>n es. k + n \<le> MAX_CONTROLLERS \<and> trace st' = trace st @ es
                \<and> glob_slots es = [k..<k + n]"
    if run: "get_ubc_by_eid_from w (k + 1) p1 l eid s = (ret, idx, p', st')"
      and pre: "trace s = trace st @ Ev_glob k # gs" and gg: "glob_slots gs = []"
    for s gs
  proof -
    from IH[OF run] obtain n es where
      n: "k + 1 + n \<le> MAX_CONTROLLERS" and t: "trace st' = trace s @ es"
      and g: "glob_slots es = [k + 1..<k + 1 + n]"
      by blast
    have "trace st' = trace st @ (Ev_glob k # gs @ es)" by (simp add: t pre)
    moreover have "glob_slots (Ev_glob k # gs @ es) = [k..<k + (n + 1)]"
      by (simp add: glob_slots_append gg g upt_conv_Cons)
    moreover have "k + (n + 1) \<le> MAX_CONTROLLERS" using n by simp
    ultimately show ?thesis by blast
  qed
  have stop: "\<exists>n es. k + n \<le> MAX_CONTROLLERS \<and> trace st' = trace st @ es
                \<and> glob_slots es = [k..<k + n]"
    if "trace st' = trace st2"
  proof -
    have "trace st' = trace st @ (Ev_glob k # fs)" by (simp add: that t1 t2)
    moreover have "glob_slots (Ev_glob k # fs) = [k..<k + 1]" by (simp add: g2)
    ultimately show ?thesis using le by blast
  qed
  consider (skip) "r1 \<noteq> 0" | (err) "r1 = 0" "r2 < 0"
    | (mism) "r1 = 0" "\<not> r2 < 0" "\<not> memcmp_eq (sysfs_eid_of r2) eid EID_SIZE"
    | (hit) "r1 = 0" "\<not> r2 < 0" "memcmp_eq (sysfs_eid_of r2) eid EID_SIZE"
    by blast
  then show ?case
  proof cases
    case skip
    with Suc.prems(1) unf
    have "get_ubc_by_eid_from w (k + 1) p1 l eid st1 = (ret, idx, p', st')" by simp
    from rec[OF this, of "[]"] t1 show ?thesis by simp
  next
    case err
    with Suc.prems(1) unf have "st' = st2\<lparr>errno := ENODEV\<rparr>" by simp
    then have "trace st' = trace st2" by simp
    then show ?thesis by (rule stop)
  next
    case mism
    with Suc.prems(1) unf
    have "get_ubc_by_eid_from w (k + 1) p1 l eid st2 = (ret, idx, p', st')" by simp
    from rec[OF this, of fs] t1 t2 g2 show ?thesis by simp
  next
    case hit
    with Suc.prems(1) unf have "st' = st2" by simp
    then have "trace st' = trace st2" by simp
    then show ?thesis by (rule stop)
  qed
qed

lemma scan_from_spec:
  "get_ubc_by_eid_from w k p MAX_PATH eid st = (ret, idx, p', st') \<Longrightarrow>
     (case resolve_with attr_nonneg w eid [k..<MAX_CONTROLLERS] of
        Resolved i dir \<Rightarrow> ret = 0 \<and> idx = Some i \<and> p' = dir
      | NotFound \<Rightarrow> ret = - 1 \<and> idx = None \<and> errno st' = ENODEV
      | ReadError \<Rightarrow> ret = - 1 \<and> idx = None \<and> errno st' = ENODEV)"
proof (induction m \<equiv> "MAX_CONTROLLERS - k" arbitrary: k p st)
  case 0
  then have "\<not> k < MAX_CONTROLLERS" by simp
  with "0.prems" show ?case
    by (auto simp: get_ubc_by_eid_from_done)
next
  case (Suc m)
  have lt: "k < MAX_CONTROLLERS" and m: "m = MAX_CONTROLLERS - (k + 1)"
    using Suc.hyps(2) by arith+
  note IH = Suc.hyps(1)[OF m]
  have slots: "[k..<MAX_CONTROLLERS] = k # [k + 1..<MAX_CONTROLLERS]"
    using lt by (simp add: upt_conv_Cons)
  obtain r1 p1 st1 where gp: "get_ubc_path w k p MAX_PATH st = (r1, p1, st1)"
    by (cases "get_ubc_path w k p MAX_PATH st") auto
  obtain r2 st2 where ga: "get_ubc_attr w p1 ''eid'' st1 = (r2, st2)"
    by (cases "get_ubc_attr w p1 ''eid'' st1") auto
  note unf = get_ubc_by_eid_from_unfold[OF lt gp ga, of eid]
  note sl = get_ubc_path_slot[of w k p st]
  note at = get_ubc_attr_parsed[of w p1 "''eid''" st1]
  show ?case
  proof (cases "slot_dir w k")
    case None
    with sl gp have "r1 \<noteq> 0" by simp
    with Suc.prems unf
    have "get_ubc_by_eid_from w (k + 1) p1 MAX_PATH eid st1 = (ret, idx, p', st')" by simp
    from IH[OF this] show ?thesis by (simp add: slots None)
  next
    case (Some d)
    with sl gp have r1: "r1 = 0" and p1: "p1 = d" by simp_all
    show ?thesis
    proof (cases "attr_nonneg w d ''eid''")
      case None
      with at ga p1 have "r2 < 0" by simp
      with Suc.prems unf r1 have "ret = - 1" "idx = None" "st' = st2\<lparr>errno := ENODEV\<rparr>"
        by simp_all
      then show ?thesis by (simp add: slots Some None)
    next
      case v: (Some v)
      with at ga p1 have r2: "r2 = v" and nn: "\<not> r2 < 0" by auto
      show ?thesis
      proof (cases "zero_extend v = take 16 eid")
        case True
        then have "memcmp_eq (sysfs_eid_of r2) eid EID_SIZE"
          unfolding memcmp_eq_sysfs_eid r2 .
        with Suc.prems unf r1 nn have "ret = 0" "idx = Some k" "p' = p1" by simp_all
        then show ?thesis by (simp add: slots Some v True p1)
      next
        case False
        then have "\<not> memcmp_eq (sysfs_eid_of r2) eid EID_SIZE"
          unfolding memcmp_eq_sysfs_eid r2 .
        with Suc.prems unf r1 nn
        have "get_ubc_by_eid_from w (k + 1) p1 MAX_PATH eid st2 = (ret, idx, p', st')"
          by simp
        from IH[OF this] show ?thesis by (simp add: slots Some v False)
      qed
    qed
  qed
qed

subsection \<open>Evaluations on the sample machines\<close>

lemma example_export_eval:
  "obmm_export example_env (Some example_lengths) 0 (Some example_desc) init_state =
     Some (42, Some example_exported,
       \<lparr>errno = 0, obmm_dev_fd = 3,
        trace = [Ev_open, Ev_glob 0, Ev_glob 1, Ev_glob 2, Ev_glob 3,
                 Ev_fopen ''/sys/devices/ub_bus_controller3/00003/eid'',
                 Ev_fopen ''/sys/devices/ub_bus_controller3/00003/ummu_map'',
                 Ev_fopen ''/sys/devices/ub_bus_controller3/00003/numa'',
                 Ev_calloc, Ev_ioctl OBMM_CMD_EXPORT 0, Ev_free]\<rparr>)"
  by code_simp

lemma example_export_useraddr_eval:
  "obmm_export_useraddr example_env 0 65536 8192 0 (Some example_desc) init_state =
     Some (42, Some (example_exported\<lparr>length_d := 8192\<rparr>),
       \<lparr>errno = 0, obmm_dev_fd = 3,
        trace = [Ev_open, Ev_glob 0, Ev_glob 1, Ev_glob 2, Ev_glob 3,
                 Ev_fopen ''/sys/devices/ub_bus_controller3/00003/eid'',
                 Ev_fopen ''/sys/devices/ub_bus_controller3/00003/ummu_map'',
                 Ev_fopen ''/sys/devices/ub_bus_controller3/00003/numa'',
                 Ev_calloc, Ev_ioctl OBMM_CMD_EXPORT_PID 0, Ev_free]\<rparr>)"
  by code_simp

lemma example_get_fd: "obmm_dev_get_fd example_env init_state =
   (3, \<lparr>errno = 0, obmm_dev_fd = 3, trace = [Ev_open]\<rparr>)"
  by code_simp

lemma example_opened_eval: "obmm_dev_get_fd example_env init_state = (3, example_opened)"
  by code_simp

lemma example_primary_cna_eval:
  "get_primary_cna_by_eid example_env (take 16 example_eid) example_opened =
     (0, Some 5, example_resolved)"
  by code_simp

section \<open>The claims\<close>

subsection \<open>C1: validation in obmm_import\<close>

text \<open>
  C1 (as amended). For a call of \<open>obmm_import\<close> with a descriptor, where \<open>(fd, st1)\<close> is
  the result of \<open>obmm_dev_get_fd\<close>, \<open>(r, cna, st2)\<close> the live primary channel of the
  descriptor's source endpoint id and \<open>(ret, e, cmd')\<close> the reply of the device:
  \<^item> with NUMA-remote set, preimport unset and \<open>base_dist\<close> outside [0,255], the call returns
    the invalid mem_id with \<open>EINVAL\<close> and the state is otherwise untouched (no event);
  \<^item> otherwise, when the handle is not obtained, it returns the invalid mem_id with the error
    of \<^verbatim>\<open>open\<close>, and no channel is resolved;
  \<^item> otherwise the channel is resolved, whatever the flags: when it is not the descriptor's
    \<open>scna\<close> (or cannot be resolved) the call returns the invalid mem_id with \<open>ENODEV\<close> and
    no \<^verbatim>\<open>ioctl\<close> is issued; when it is, the \<^verbatim>\<open>ioctl\<close> is issued and its result
    returned.
  Between \<open>st1\<close> and \<open>st2\<close> only sysfs is read.
\<close>
theorem import_validation:
  assumes fd: "obmm_dev_get_fd w st = (fd, st1)"
      and cna: "get_primary_cna_by_eid w (take 16 (seid desc)) st1 = (r, cna, st2)"
      and dev: "dev_import w fd (import_cmd desc flags base_dist numa_ptr) = (ret, e, cmd')"
  shows "obmm_import w (Some desc) flags base_dist numa_ptr st =
           (if base_dist_rejected w flags base_dist then
              (OBMM_INVALID_MEMID, numa_ptr, st\<lparr>errno := EINVAL\<rparr>)
            else if fd < 0 then (OBMM_INVALID_MEMID, numa_ptr, st1)
            else if cna \<noteq> Some (scna desc) then
              (OBMM_INVALID_MEMID, numa_ptr, st2\<lparr>errno := ENODEV\<rparr>)
            else if ret < 0 then
              (OBMM_INVALID_MEMID, numa_ptr,
               emit (Ev_ioctl OBMM_CMD_IMPORT ret) (st2\<lparr>errno := e\<rparr>))
            else
              (im_mem_id cmd',
               (case numa_ptr of None \<Rightarrow> None | Some old \<Rightarrow> Some (im_numa_id cmd')),
               emit (Ev_ioctl OBMM_CMD_IMPORT ret) st2))
       \<and> new_events st st1 = (if obmm_dev_fd st < 0 then [Ev_open] else [])
       \<and> errno st1 = (if fd < 0 then open_errno w else 0)
       \<and> trace st2 = trace st1 @ new_events st1 st2
       \<and> list_all sysfs_event (new_events st1 st2)"
proof -
  have a: "obmm_import w (Some desc) flags base_dist numa_ptr st =
           (if base_dist_rejected w flags base_dist then
              (OBMM_INVALID_MEMID, numa_ptr, st\<lparr>errno := EINVAL\<rparr>)
            else if fd < 0 then (OBMM_INVALID_MEMID, numa_ptr, st1)
            else if cna \<noteq> Some (scna desc) then
              (OBMM_INVALID_MEMID, numa_ptr, st2\<lparr>errno := ENODEV\<rparr>)
            else if ret < 0 then
              (OBMM_INVALID_MEMID, numa_ptr,
               emit (Ev_ioctl OBMM_CMD_IMPORT ret) (st2\<lparr>errno := e\<rparr>))
            else
              (im_mem_id cmd',
               (case numa_ptr of None \<Rightarrow> None | Some old \<Rightarrow> Some (im_numa_id cmd')),
               emit (Ev_ioctl OBMM_CMD_IMPORT ret) st2))"
  proof (cases "base_dist_rejected w flags base_dist")
    case True
    then show ?thesis by (simp add: obmm_import_Some)
  next
    case nr: False
    show ?thesis
    proof (cases "fd < 0")
      case True
      with nr fd show ?thesis by (simp add: obmm_import_Some)
    next
      case False
      then have "0 \<le> fd" by simp
      from import_checked[OF nr fd this cna dev] nr False show ?thesis by simp
    qed
  qed
  have s: "sysfs_step st1 st2" using cna by (rule get_primary_cna_by_eid_step)
  show ?thesis
    using a get_fd_facts(1,3)[OF fd] sysfs_step_new_events[OF s] by simp
qed

text \<open>
  C1 on the sample machine: a matching descriptor reaches the device, a stale one ends with
  \<open>ENODEV\<close>, and distance 300 with NUMA-remote (4) set ends with \<open>EINVAL\<close>.
\<close>
theorem import_validation_witness:
  "obmm_import example_env (Some example_desc) 0 0 (Some (- 1)) init_state =
     (43, Some 2, emit (Ev_ioctl OBMM_CMD_IMPORT 0) example_resolved)
   \<and> obmm_import example_env (Some stale_desc) 0 0 (Some (- 1)) init_state =
     (OBMM_INVALID_MEMID, Some (- 1), example_resolved\<lparr>errno := ENODEV\<rparr>)
   \<and> obmm_import example_env (Some stale_desc) 4 300 (Some (- 1)) init_state =
     (OBMM_INVALID_MEMID, Some (- 1), init_state\<lparr>errno := EINVAL\<rparr>)"
proof -
  have c1: "get_primary_cna_by_eid example_env (take 16 (seid example_desc)) example_opened =
        (0, Some 5, example_resolved)" by code_simp
  have c2: "get_primary_cna_by_eid example_env (take 16 (seid stale_desc)) example_opened =
        (0, Some 5, example_resolved)" by code_simp
  have d1: "dev_import example_env 3 (import_cmd example_desc 0 0 (Some (- 1))) =
        (0, 0, (import_cmd example_desc 0 0 (Some (- 1)))\<lparr>im_mem_id := 43, im_numa_id := 2\<rparr>)"
    by (simp add: example_env_def)
  have d2: "dev_import example_env 3 (import_cmd stale_desc 0 0 (Some (- 1))) =
        (0, 0, (import_cmd stale_desc 0 0 (Some (- 1)))\<lparr>im_mem_id := 43, im_numa_id := 2\<rparr>)"
    by (simp add: example_env_def)
  have d3: "dev_import example_env 3 (import_cmd stale_desc 4 300 (Some (- 1))) =
        (0, 0, (import_cmd stale_desc 4 300 (Some (- 1)))\<lparr>im_mem_id := 43, im_numa_id := 2\<rparr>)"
    by (simp add: example_env_def)
  have r1: "\<not> base_dist_rejected example_env 0 0" by code_simp
  have r3: "base_dist_rejected example_env 4 300" by code_simp
  have s1: "scna example_desc = 5" "scna stale_desc = 9" by code_simp+
  show ?thesis
    using import_validation[OF example_opened_eval c1 d1]
          import_validation[OF example_opened_eval c2 d2]
          import_validation[OF example_opened_eval c2 d3]
    by (simp add: r1 r3 s1)
qed

text \<open>
  C1 as stated fails where the device cannot be opened: the descriptor's channel 9 is not
  the live channel 5, yet the call ends with the error of \<^verbatim>\<open>open\<close> (2), not
  \<open>ENODEV\<close>, and without reading sysfs.
\<close>
theorem import_without_device:
  "obmm_import nodev_env (Some stale_desc) 0 0 (Some (- 1)) init_state =
     (OBMM_INVALID_MEMID, Some (- 1), \<lparr>errno = 2, obmm_dev_fd = - 1, trace = [Ev_open]\<rparr>)
   \<and> ENODEV \<noteq> 2
   \<and> fst (snd (get_primary_cna_by_eid nodev_env (take 16 (seid stale_desc)) init_state)) = Some 5
   \<and> scna stale_desc = 9"
  by code_simp

subsection \<open>C2: errno across the release of the payload\<close>

text \<open>
  C2, at the failing input. On the machine whose device fails every command with error 16
  and whose \<^verbatim>\<open>free\<close> leaves 12 in \<^verbatim>\<open>errno\<close>, both export functions release the
  payload after the failed \<^verbatim>\<open>ioctl\<close> (the event \<open>Ev_free\<close>). \<open>obmm_export\<close>, which
  saves and restores \<^verbatim>\<open>errno\<close> around the release, reports 16; \<open>obmm_export_useraddr\<close>,
  which does not, reports the 12 of the release.
\<close>
theorem export_useraddr_errno_from_release:
  "obmm_export_useraddr failing_env 0 65536 8192 0 (Some example_desc) init_state =
     Some (OBMM_INVALID_MEMID, Some example_desc,
       \<lparr>errno = 12, obmm_dev_fd = 3,
        trace = [Ev_open, Ev_glob 0, Ev_glob 1, Ev_glob 2, Ev_glob 3,
                 Ev_fopen ''/sys/devices/ub_bus_controller3/00003/eid'',
                 Ev_fopen ''/sys/devices/ub_bus_controller3/00003/ummu_map'',
                 Ev_fopen ''/sys/devices/ub_bus_controller3/00003/numa'',
                 Ev_calloc, Ev_ioctl OBMM_CMD_EXPORT_PID (- 1), Ev_free]\<rparr>)
   \<and> obmm_export failing_env (Some example_lengths) 0 (Some example_desc) init_state =
     Some (OBMM_INVALID_MEMID, Some example_desc,
       \<lparr>errno = 16, obmm_dev_fd = 3,
        trace = [Ev_open, Ev_glob 0, Ev_glob 1, Ev_glob 2, Ev_glob 3,
                 Ev_fopen ''/sys/devices/ub_bus_controller3/00003/eid'',
                 Ev_fopen ''/sys/devices/ub_bus_controller3/00003/ummu_map'',
                 Ev_fopen ''/sys/devices/ub_bus_controller3/00003/numa'',
                 Ev_calloc, Ev_ioctl OBMM_CMD_EXPORT (- 1), Ev_free]\<rparr>)"
  by code_simp

subsection \<open>C3: validation in obmm_preimport and obmm_unpreimport\<close>

text \<open>
  C3 (as amended). \<open>obmm_preimport\<close> rejects a \<open>base_dist\<close> outside [0,255] with
  \<open>EINVAL\<close> before any device interaction, whatever the flags; past that check and with the
  device handle obtained it resolves the live primary channel of the source endpoint id, and
  a channel that is not the recorded \<open>scna\<close> ends the call with \<open>-1\<close> and \<open>ENODEV\<close> before
  the \<^verbatim>\<open>ioctl\<close>. \<open>obmm_unpreimport\<close> checks neither: once it has the device handle it
  sends the command, and it reads no attribute of sysfs.
\<close>
theorem preimport_validation:
  assumes fd: "obmm_dev_get_fd w st = (fd, st1)"
      and cna: "get_primary_cna_by_eid w (take 16 (pi_seid info)) st1 = (r, cna, st2)"
      and dev: "dev_declare_preimport w fd (preimport_cmd info flags) = (ret, e, cmd')"
      and und: "dev_undeclare_preimport w fd (preimport_cmd info flags) = (uret, ue, ucmd')"
  shows "obmm_preimport w (Some info) flags st =
           (if pi_base_dist info < 0 \<or> 255 < pi_base_dist info then
              (- 1, Some info, st\<lparr>errno := EINVAL\<rparr>)
            else if fd < 0 then (fd, Some info, st1)
            else if cna \<noteq> Some (pi_scna info) then
              (- 1, Some info, st2\<lparr>errno := ENODEV\<rparr>)
            else if ret < 0 then
              (ret, Some info,
               emit (Ev_ioctl OBMM_CMD_DECLARE_PREIMPORT ret) (st2\<lparr>errno := e\<rparr>))
            else
              (0, Some (info\<lparr>pi_numa_id := pc_numa_id cmd'\<rparr>),
               emit (Ev_ioctl OBMM_CMD_DECLARE_PREIMPORT ret) st2))
       \<and> obmm_unpreimport w (Some info) flags st =
           (if fd < 0 then (fd, st1)
            else (uret, emit (Ev_ioctl OBMM_CMD_UNDECLARE_PREIMPORT uret)
                          (st1\<lparr>errno := (if uret < 0 then ue else errno st1)\<rparr>)))
       \<and> new_events st st1 = (if obmm_dev_fd st < 0 then [Ev_open] else [])
       \<and> trace st2 = trace st1 @ new_events st1 st2
       \<and> list_all sysfs_event (new_events st1 st2)"
proof -
  have a: "obmm_preimport w (Some info) flags st =
           (if pi_base_dist info < 0 \<or> 255 < pi_base_dist info then
              (- 1, Some info, st\<lparr>errno := EINVAL\<rparr>)
            else if fd < 0 then (fd, Some info, st1)
            else if cna \<noteq> Some (pi_scna info) then
              (- 1, Some info, st2\<lparr>errno := ENODEV\<rparr>)
            else if ret < 0 then
              (ret, Some info,
               emit (Ev_ioctl OBMM_CMD_DECLARE_PREIMPORT ret) (st2\<lparr>errno := e\<rparr>))
            else
              (0, Some (info\<lparr>pi_numa_id := pc_numa_id cmd'\<rparr>),
               emit (Ev_ioctl OBMM_CMD_DECLARE_PREIMPORT ret) st2))"
  proof (cases "pi_base_dist info < 0 \<or> 255 < pi_base_dist info")
    case True
    then show ?thesis by (simp add: obmm_preimport_Some)
  next
    case nr: False
    show ?thesis
    proof (cases "fd < 0")
      case True
      with nr fd show ?thesis by (simp add: obmm_preimport_Some)
    next
      case False
      then have "0 \<le> fd" by simp
      from preimport_checked[OF nr fd this cna dev] nr False show ?thesis by simp
    qed
  qed
  have s: "sysfs_step st1 st2" using cna by (rule get_primary_cna_by_eid_step)
  show ?thesis
    using a obmm_unpreimport_Some[OF fd und] get_fd_facts(1)[OF fd] sysfs_step_new_events[OF s]
    by simp
qed

text \<open>
  C3 on the sample machine: distance 300 is rejected with \<open>EINVAL\<close> although no flag is
  set; the matching structure reaches the device, which assigns NUMA node 2; the undeclare
  call reaches the device after the open alone.
\<close>
theorem preimport_validation_witness:
  "obmm_preimport example_env (Some far_info) 0 init_state =
     (- 1, Some far_info, init_state\<lparr>errno := EINVAL\<rparr>)
   \<and> obmm_preimport example_env (Some example_info) 0 init_state =
     (0, Some (example_info\<lparr>pi_numa_id := 2\<rparr>),
      emit (Ev_ioctl OBMM_CMD_DECLARE_PREIMPORT 0) example_resolved)
   \<and> obmm_unpreimport example_env (Some example_info) 0 init_state =
     (0, emit (Ev_ioctl OBMM_CMD_UNDECLARE_PREIMPORT 0) example_opened)"
proof -
  have c1: "get_primary_cna_by_eid example_env (take 16 (pi_seid far_info)) example_opened =
        (0, Some 5, example_resolved)" by code_simp
  have c2: "get_primary_cna_by_eid example_env (take 16 (pi_seid example_info)) example_opened =
        (0, Some 5, example_resolved)" by code_simp
  have d1: "dev_declare_preimport example_env 3 (preimport_cmd far_info 0) =
        (0, 0, (preimport_cmd far_info 0)\<lparr>pc_numa_id := 2\<rparr>)"
    by (simp add: example_env_def)
  have d2: "dev_declare_preimport example_env 3 (preimport_cmd example_info 0) =
        (0, 0, (preimport_cmd example_info 0)\<lparr>pc_numa_id := 2\<rparr>)"
    by (simp add: example_env_def)
  have u1: "dev_undeclare_preimport example_env 3 (preimport_cmd far_info 0) =
        (0, 0, preimport_cmd far_info 0)"
    by (simp add: example_env_def)
  have u2: "dev_undeclare_preimport example_env 3 (preimport_cmd example_info 0) =
        (0, 0, preimport_cmd example_info 0)"
    by (simp add: example_env_def)
  have b: "pi_base_dist far_info = 300" "pi_base_dist example_info = 10"
          "pi_scna example_info = 5"
    by (simp_all add: far_info_def example_info_def)
  have o: "errno example_opened = 0" "example_opened\<lparr>errno := 0\<rparr> = example_opened"
    by (simp_all add: example_opened_def)
  show ?thesis
    using preimport_validation[OF example_opened_eval c1 d1 u1]
          preimport_validation[OF example_opened_eval c2 d2 u2]
    by (simp add: b o)
qed

text \<open>
  C3 as stated fails on the sample machine. With no flag set, \<open>obmm_preimport\<close> rejects
  distance 300, which the check of \<open>obmm_import\<close> lets pass for these flags. With
  NUMA-remote (4) set, distance 300 and the stale channel 9, \<open>obmm_unpreimport\<close> is not
  rejected: it sends the command and returns the device's 0.
\<close>
theorem preimport_checks_differ:
  "obmm_preimport example_env (Some far_info) 0 init_state =
     (- 1, Some far_info, \<lparr>errno = EINVAL, obmm_dev_fd = - 1, trace = []\<rparr>)
   \<and> \<not> base_dist_rejected example_env 0 300
   \<and> base_dist_rejected example_env 4 300
   \<and> obmm_unpreimport example_env (Some far_stale_info) 4 init_state =
     (0, \<lparr>errno = 0, obmm_dev_fd = 3,
          trace = [Ev_open, Ev_ioctl OBMM_CMD_UNDECLARE_PREIMPORT 0]\<rparr>)"
  by code_simp

subsection \<open>C4: what an export writes to the descriptor\<close>

text \<open>
  C4 (as amended). After a successful export (\<open>obmm_export\<close> or \<open>obmm_export_useraddr\<close>
  returning a valid mem_id) the descriptor is the one before the call with \<open>addr\<close>,
  \<open>length\<close> and \<open>tokenid\<close> replaced and with \<open>scna\<close> and \<open>dcna\<close> set to 0; so
  \<open>seid\<close>, \<open>deid\<close>, \<open>priv_len\<close> and the private bytes hold the values they had.
\<close>
theorem export_frame_of_descriptor:
  assumes "obmm_export w (Some L) flags (Some desc) st = Some (mid, Some desc', st')
           \<or> obmm_export_useraddr w pid va len flags (Some desc) st = Some (mid, Some desc', st')"
      and "mid \<noteq> OBMM_INVALID_MEMID"
  shows "desc' = desc\<lparr>addr := addr desc', length_d := length_d desc', tokenid := tokenid desc',
                      scna := 0, dcna := 0\<rparr>
       \<and> seid desc' = seid desc \<and> deid desc' = deid desc
       \<and> priv_len desc' = priv_len desc \<and> priv desc' = priv desc
       \<and> scna desc' = 0 \<and> dcna desc' = 0"
proof -
  let ?goal = "desc' = desc\<lparr>addr := addr desc', length_d := length_d desc',
                              tokenid := tokenid desc', scna := 0, dcna := 0\<rparr>
       \<and> seid desc' = seid desc \<and> deid desc' = deid desc
       \<and> priv_len desc' = priv_len desc \<and> priv desc' = priv desc
       \<and> scna desc' = 0 \<and> dcna desc' = 0"
  from assms(1) show ?goal
  proof
    assume "obmm_export w (Some L) flags (Some desc) st = Some (mid, Some desc', st')"
    from export_frame[OF this] assms(2) obtain uba tok where
      "desc' = desc\<lparr>addr := uba, tokenid := tok, scna := 0, dcna := 0,
                     length_d := sum_list (take (OBMM_MAX_LOCAL_NUMA_NODES w) L)\<rparr>"
      by auto
    then show ?goal by simp
  next
    assume "obmm_export_useraddr w pid va len flags (Some desc) st = Some (mid, Some desc', st')"
    from export_useraddr_frame[OF this] assms(2) obtain uba tok where
      "desc' = desc\<lparr>addr := uba, length_d := len, tokenid := tok, scna := 0, dcna := 0\<rparr>"
      by auto
    then show ?goal by simp
  qed
qed

text \<open>
  C4 on the sample machine, for both export functions: the channels 5 and 9 of the
  descriptor become 0, the endpoint ids and the private data stay.
\<close>
theorem export_frame_of_descriptor_witness:
  "obmm_export example_env (Some example_lengths) 0 (Some example_desc) init_state =
     Some (42, Some example_exported, example_export_state)
   \<and> seid example_exported = seid example_desc \<and> deid example_exported = deid example_desc
   \<and> priv_len example_exported = priv_len example_desc
   \<and> priv example_exported = priv example_desc
   \<and> scna example_exported = 0 \<and> dcna example_exported = 0
   \<and> scna (example_exported\<lparr>length_d := 8192\<rparr>) = 0"
proof -
  have e: "obmm_export example_env (Some example_lengths) 0 (Some example_desc) init_state =
     Some (42, Some example_exported, example_export_state)"
    by (simp add: example_export_eval example_export_state_def)
  have v: "(42 :: mem_id) \<noteq> OBMM_INVALID_MEMID" by (simp add: OBMM_INVALID_MEMID_def)
  show ?thesis
    using export_frame_of_descriptor[OF disjI1[OF e] v]
          export_frame_of_descriptor[OF disjI2[OF example_export_useraddr_eval] v]
          e
    by simp
qed

text \<open>
  C4 as stated fails on the sample machine: the export succeeds (mem_id 42), and the
  descriptor's \<open>scna\<close> goes from 5 to 0 and its \<open>dcna\<close> from 9 to 0.
\<close>
theorem export_resets_channels:
  "obmm_export example_env (Some example_lengths) 0 (Some example_desc) init_state =
     Some (42, Some example_exported, example_export_state)
   \<and> OBMM_INVALID_MEMID \<noteq> 42
   \<and> scna example_desc = 5 \<and> scna example_exported = 0
   \<and> dcna example_desc = 9 \<and> dcna example_exported = 0"
  by code_simp

subsection \<open>C5: the scan of the controller slots\<close>

text \<open>
  C5 (as amended). \<open>get_ubc_by_eid\<close> computes the resolution over the slots \<open>0, \<dots>, 7\<close>
  in ascending order in which an \<^verbatim>\<open>eid\<close> attribute that does not parse, or that parses
  to a negative number, is a read error: it returns 0 with the index and the directory of
  the first located slot whose parsed \<^verbatim>\<open>eid\<close>, zero-extended to 16 bytes, is the
  requested id byte for byte; it returns \<open>-1\<close> with \<open>ENODEV\<close> when no slot matches, and
  also when it meets a located slot with a read error, which ends the scan. Where no
  located slot has a negative \<^verbatim>\<open>eid\<close> this is the resolution of the specification.
  The slots it asks \<^verbatim>\<open>glob\<close> for are \<open>0, \<dots>, n - 1\<close> for some \<open>n \<le> 8\<close>, in this order,
  and the buffer it compares is the zero-extension of the number read.
\<close>
theorem get_ubc_by_eid_scan:
  assumes "get_ubc_by_eid w p MAX_PATH eid st = (ret, idx, p', st')"
  shows "(case resolve_nonneg w eid [0..<MAX_CONTROLLERS] of
            Resolved i dir \<Rightarrow> ret = 0 \<and> idx = Some i \<and> p' = dir
          | NotFound \<Rightarrow> ret = - 1 \<and> idx = None \<and> errno st' = ENODEV
          | ReadError \<Rightarrow> ret = - 1 \<and> idx = None \<and> errno st' = ENODEV)
       \<and> (no_negative_eid w [0..<MAX_CONTROLLERS] \<longrightarrow>
            resolve_nonneg w eid [0..<MAX_CONTROLLERS] = resolve_spec w eid [0..<MAX_CONTROLLERS])
       \<and> MAX_CONTROLLERS = 8
       \<and> (\<exists>n. n \<le> MAX_CONTROLLERS \<and> glob_slots (new_events st st') = [0..<n])
       \<and> sysfs_eid_of v = zero_extend v"
proof -
  from assms have run: "get_ubc_by_eid_from w 0 p MAX_PATH eid st = (ret, idx, p', st')"
    by (simp add: get_ubc_by_eid_def)
  from scan_from_globs[OF run] obtain n es where
    "0 + n \<le> MAX_CONTROLLERS" "trace st' = trace st @ es" "glob_slots es = [0..<0 + n]"
    by auto
  then have "n \<le> MAX_CONTROLLERS \<and> glob_slots (new_events st st') = [0..<n]"
    by (simp add: new_events_def)
  then have g: "\<exists>n. n \<le> MAX_CONTROLLERS \<and> glob_slots (new_events st st') = [0..<n]" ..
  have e: "no_negative_eid w [0..<MAX_CONTROLLERS] \<longrightarrow>
            resolve_nonneg w eid [0..<MAX_CONTROLLERS] = resolve_spec w eid [0..<MAX_CONTROLLERS]"
    by (simp add: resolve_nonneg_def resolve_spec_def resolve_nonneg_eq_spec)
  have c: "(case resolve_nonneg w eid [0..<MAX_CONTROLLERS] of
            Resolved i dir \<Rightarrow> ret = 0 \<and> idx = Some i \<and> p' = dir
          | NotFound \<Rightarrow> ret = - 1 \<and> idx = None \<and> errno st' = ENODEV
          | ReadError \<Rightarrow> ret = - 1 \<and> idx = None \<and> errno st' = ENODEV)"
    using scan_from_spec[OF run] by (simp add: resolve_nonneg_def)
  have m: "MAX_CONTROLLERS = 8" by (simp add: MAX_CONTROLLERS_def)
  from c e m g sysfs_eid_of_zero_extend[of v] show ?thesis by blast
qed

text \<open>
  C5 on the sample machine: the id 0x1234 resolves to slot 3 after slots 0 to 3 were asked
  for, and this is the resolution of the specification, no slot having a negative
  \<^verbatim>\<open>eid\<close>; the all-zero id matches no slot; and with an unparsable \<^verbatim>\<open>eid\<close> in slot 1
  the resolution is a read error, although slot 3 would match.
\<close>
theorem get_ubc_by_eid_scan_witness:
  "get_ubc_by_eid example_env [] MAX_PATH example_eid init_state =
     (0, Some 3, example_dir,
      \<lparr>errno = 0, obmm_dev_fd = - 1,
       trace = [Ev_glob 0, Ev_glob 1, Ev_glob 2, Ev_glob 3,
                Ev_fopen ''/sys/devices/ub_bus_controller3/00003/eid'']\<rparr>)
   \<and> no_negative_eid example_env [0..<MAX_CONTROLLERS]
   \<and> resolve_spec example_env example_eid [0..<MAX_CONTROLLERS] = Resolved 3 example_dir
   \<and> resolve_nonneg example_env (replicate 16 0) [0..<MAX_CONTROLLERS] = NotFound
   \<and> fst (get_ubc_by_eid example_env [] MAX_PATH (replicate 16 0) init_state) = - 1
   \<and> errno (snd (snd (snd (get_ubc_by_eid example_env [] MAX_PATH (replicate 16 0) init_state))))
       = ENODEV
   \<and> resolve_nonneg garbled_env example_eid [0..<MAX_CONTROLLERS] = ReadError
   \<and> fst (get_ubc_by_eid garbled_env [] MAX_PATH example_eid init_state) = - 1
   \<and> errno (snd (snd (snd (get_ubc_by_eid garbled_env [] MAX_PATH example_eid init_state))))
       = ENODEV"
proof -
  have e1: "get_ubc_by_eid example_env [] MAX_PATH example_eid init_state =
     (0, Some 3, example_dir,
      \<lparr>errno = 0, obmm_dev_fd = - 1,
       trace = [Ev_glob 0, Ev_glob 1, Ev_glob 2, Ev_glob 3,
                Ev_fopen ''/sys/devices/ub_bus_controller3/00003/eid'']\<rparr>)"
    by code_simp
  have nn: "no_negative_eid example_env [0..<MAX_CONTROLLERS]"
    by code_simp
  have r1: "resolve_nonneg example_env example_eid [0..<MAX_CONTROLLERS] = Resolved 3 example_dir"
    by code_simp
  have r2: "resolve_nonneg example_env (replicate 16 0) [0..<MAX_CONTROLLERS] = NotFound"
    by code_simp
  have r3: "resolve_nonneg garbled_env example_eid [0..<MAX_CONTROLLERS] = ReadError"
    by code_simp
  have e2: "get_ubc_by_eid example_env [] MAX_PATH (replicate 16 0) init_state =
     (fst (get_ubc_by_eid example_env [] MAX_PATH (replicate 16 0) init_state),
      fst (snd (get_ubc_by_eid example_env [] MAX_PATH (replicate 16 0) init_state)),
      fst (snd (snd (get_ubc_by_eid example_env [] MAX_PATH (replicate 16 0) init_state))),
      snd (snd (snd (get_ubc_by_eid example_env [] MAX_PATH (replicate 16 0) init_state))))"
    by simp
  have e3: "get_ubc_by_eid garbled_env [] MAX_PATH example_eid init_state =
     (fst (get_ubc_by_eid garbled_env [] MAX_PATH example_eid init_state),
      fst (snd (get_ubc_by_eid garbled_env [] MAX_PATH example_eid init_state)),
      fst (snd (snd (get_ubc_by_eid garbled_env [] MAX_PATH example_eid init_state))),
      snd (snd (snd (get_ubc_by_eid garbled_env [] MAX_PATH example_eid init_state))))"
    by simp
  show ?thesis
    using get_ubc_by_eid_scan[OF e1] get_ubc_by_eid_scan[OF e2] get_ubc_by_eid_scan[OF e3]
    by (simp add: e1 nn r1 r2 r3)
qed

text \<open>
  C5 as stated fails where a located slot has a negative \<^verbatim>\<open>eid\<close>. On the sample machine
  with a controller in slot 1 whose \<^verbatim>\<open>eid\<close> reads \<open>-5\<close>, that attribute parses as an
  integer of the representable range and its zero-extension is not the requested id
  0x1234, which is the zero-extension of the \<^verbatim>\<open>eid\<close> 4660 of slot 3: the resolution of
  the specification is slot 3. \<open>get_ubc_by_eid\<close> returns \<open>-1\<close> with \<open>ENODEV\<close> after the
  read in slot 1 and asks for no further slot.
\<close>
theorem get_ubc_by_eid_negative_eid:
  "get_ubc_by_eid negative_env [] MAX_PATH example_eid init_state =
     (- 1, None, ''/sys/devices/ub_bus_controller1/00001'',
      \<lparr>errno = ENODEV, obmm_dev_fd = - 1,
       trace = [Ev_glob 0, Ev_glob 1,
                Ev_fopen ''/sys/devices/ub_bus_controller1/00001/eid'']\<rparr>)
   \<and> glob_ubc negative_env 1 = Glob_match ''/sys/devices/ub_bus_controller1/00001''
   \<and> sysfs_file negative_env ''/sys/devices/ub_bus_controller1/00001/eid'' = Strtol_long (- 5)
   \<and> INT_MIN \<le> - 5 \<and> - 5 \<le> INT_MAX
   \<and> zero_extend (- 5) = [251, 255, 255, 255, 0, 0, 0, 0, 0, 0, 0, 0, 0, 0, 0, 0]
   \<and> glob_ubc negative_env 3 = Glob_match example_dir
   \<and> sysfs_file negative_env (example_dir @ ''/eid'') = Strtol_long 4660
   \<and> zero_extend 4660 = example_eid
   \<and> resolve_spec negative_env example_eid [0..<MAX_CONTROLLERS] = Resolved 3 example_dir"
  by code_simp

subsection \<open>C6: the vendor payload\<close>

text \<open>
  C6, at the failing input. For mapping index 3 the payload has version V1, the on-chip
  flag and the mask \<open>0b1000\<close>, with length 24. For mapping index 31 the shift
  \<^verbatim>\<open>1 << 31\<close> is taken in \<^verbatim>\<open>int\<close>, where it overflows: \<open>init_vendor_info\<close> has no
  defined result, and neither has an export to a controller whose \<^verbatim>\<open>ummu_map\<close>
  reads 31.
\<close>
theorem init_vendor_info_shift_overflow:
  "init_vendor_info example_env 3 init_state =
     Some (0, Some (\<lparr>ver = HISI_TDEV_INFO_V1, ummu_idx_mask = 8, on_chip = True\<rparr>, 24),
           \<lparr>errno = 0, obmm_dev_fd = - 1, trace = [Ev_calloc]\<rparr>)
   \<and> c_shl_int 1 31 = None
   \<and> init_vendor_info example_env 31 init_state = None
   \<and> obmm_export env31 (Some example_lengths) 0 (Some example_desc) init_state = None"
  by code_simp

subsection \<open>C7: the all-zero destination endpoint id\<close>

text \<open>
  C7 (as amended). For an export call (\<open>obmm_export_useraddr\<close>, and \<open>obmm_export\<close> with
  an array of \<^verbatim>\<open>OBMM_MAX_LOCAL_NUMA_NODES\<close> lengths) whose descriptor has the all-zero
  destination endpoint id: the call returns the invalid mem_id and leaves the descriptor as
  it was; the only event it can add is the opening of the device, so no controller slot is
  scanned and no attribute is read; \<^verbatim>\<open>errno\<close> ends as \<open>EINVAL\<close> when the device handle
  is obtained, and as the error of \<^verbatim>\<open>open\<close> when it is not.
\<close>
theorem export_zero_deid:
  assumes zero: "take 16 (deid desc) = replicate 16 0"
      and fd: "obmm_dev_get_fd w st = (fd, st1)"
      and len: "OBMM_MAX_LOCAL_NUMA_NODES w \<le> length L"
  shows "obmm_export_useraddr w pid va len flags (Some desc) st =
           Some (OBMM_INVALID_MEMID, Some desc, if fd < 0 then st1 else st1\<lparr>errno := EINVAL\<rparr>)
       \<and> obmm_export w (Some L) flags (Some desc) st =
           Some (OBMM_INVALID_MEMID, Some desc, if fd < 0 then st1 else st1\<lparr>errno := EINVAL\<rparr>)
       \<and> new_events st st1 = (if obmm_dev_fd st < 0 then [Ev_open] else [])
       \<and> errno st1 = (if fd < 0 then open_errno w else 0)"
proof -
  have v: "\<And>s. vendor_adapt_export w desc s = Some (EINVAL, None, None, s)"
    using zero_deid[OF zero] by (simp add: vendor_adapt_export_def)
  have a: "obmm_export_useraddr w pid va len flags (Some desc) st =
           Some (OBMM_INVALID_MEMID, Some desc, if fd < 0 then st1 else st1\<lparr>errno := EINVAL\<rparr>)"
    by (simp add: obmm_export_useraddr_def fd v EINVAL_def)
  have b: "obmm_export w (Some L) flags (Some desc) st =
              Some (OBMM_INVALID_MEMID, Some desc, if fd < 0 then st1 else st1\<lparr>errno := EINVAL\<rparr>)"
    using len by (simp add: obmm_export_def fd v EINVAL_def)
  show ?thesis using a b get_fd_facts(1,3)[OF fd] by simp
qed

text \<open>C7 on the sample machine: the handle is obtained, and both calls end with \<open>EINVAL\<close>.\<close>
theorem export_zero_deid_witness:
  "obmm_export_useraddr example_env 0 65536 8192 0 (Some zero_desc) init_state =
     Some (OBMM_INVALID_MEMID, Some zero_desc, \<lparr>errno = EINVAL, obmm_dev_fd = 3, trace = [Ev_open]\<rparr>)
   \<and> obmm_export example_env (Some example_lengths) 0 (Some zero_desc) init_state =
     Some (OBMM_INVALID_MEMID, Some zero_desc, \<lparr>errno = EINVAL, obmm_dev_fd = 3, trace = [Ev_open]\<rparr>)"
proof -
  have z: "take 16 (deid zero_desc) = replicate 16 0" by code_simp
  have l: "OBMM_MAX_LOCAL_NUMA_NODES example_env \<le> length example_lengths" by code_simp
  show ?thesis
    using export_zero_deid[OF z example_get_fd l, where pid = 0 and va = 65536 and len = 8192 and flags = 0]
    by simp
qed

text \<open>
  C7 as stated fails where the device cannot be opened: both calls return before
  \<open>vendor_adapt_export\<close>, and \<^verbatim>\<open>errno\<close> is the error of \<^verbatim>\<open>open\<close> (here 2), not
  \<open>EINVAL\<close>.
\<close>
theorem export_zero_deid_no_device:
  "obmm_export nodev_env (Some example_lengths) 0 (Some zero_desc) init_state =
     Some (OBMM_INVALID_MEMID, Some zero_desc, \<lparr>errno = 2, obmm_dev_fd = - 1, trace = [Ev_open]\<rparr>)
   \<and> obmm_export_useraddr nodev_env 0 65536 8192 0 (Some zero_desc) init_state =
     Some (OBMM_INVALID_MEMID, Some zero_desc, \<lparr>errno = 2, obmm_dev_fd = - 1, trace = [Ev_open]\<rparr>)
   \<and> EINVAL \<noteq> 2"
  by code_simp

subsection \<open>C8: the length after obmm_export\<close>

text \<open>
  C8. After a successful \<open>obmm_export\<close> the descriptor's \<open>length\<close> is the sum of the
  \<^verbatim>\<open>OBMM_MAX_LOCAL_NUMA_NODES\<close> entries of the array, which has that many entries; the
  sum is that of \<^verbatim>\<open>uint64_t\<close>, that is, the sum of the numbers modulo \<open>2 ^ 64\<close>.
\<close>
theorem export_length_is_sum:
  assumes "obmm_export w (Some L) flags (Some desc) st = Some (mid, Some desc', st')"
      and "mid \<noteq> OBMM_INVALID_MEMID"
  shows "OBMM_MAX_LOCAL_NUMA_NODES w \<le> length L
       \<and> length_d desc' = sum_list (take (OBMM_MAX_LOCAL_NUMA_NODES w) L)
       \<and> unat (length_d desc') =
           sum_list (map unat (take (OBMM_MAX_LOCAL_NUMA_NODES w) L)) mod 2 ^ 64"
proof -
  from export_frame[OF assms(1)] assms(2)
  have "OBMM_MAX_LOCAL_NUMA_NODES w \<le> length L
       \<and> length_d desc' = sum_list (take (OBMM_MAX_LOCAL_NUMA_NODES w) L)"
    by auto
  then show ?thesis by (simp add: unat_sum_list)
qed

text \<open>
  C8 on the scenario of the specification: lengths \<open>[4096, 0, \<dots>]\<close>, a controller with
  mapping index 3 and NUMA node 1; the export succeeds and the length is 4096.
\<close>
theorem export_length_is_sum_witness:
  "obmm_export example_env (Some example_lengths) 0 (Some example_desc) init_state =
     Some (42, Some example_exported, example_export_state)
   \<and> length example_lengths = 16
   \<and> length_d example_exported = sum_list example_lengths
   \<and> length_d example_exported = 4096"
proof -
  have e: "obmm_export example_env (Some example_lengths) 0 (Some example_desc) init_state =
     Some (42, Some example_exported, example_export_state)"
    by (simp add: example_export_eval example_export_state_def)
  have v: "(42 :: mem_id) \<noteq> OBMM_INVALID_MEMID" by (simp add: OBMM_INVALID_MEMID_def)
  have n: "OBMM_MAX_LOCAL_NUMA_NODES example_env = 16" by (simp add: example_env_def)
  have l: "length example_lengths = 16" "length_d example_exported = 4096"
    by (simp_all add: example_lengths_def example_exported_def)
  show ?thesis
    using export_length_is_sum[OF e v] e l by (simp add: n)
qed

subsection \<open>C9: the invalid mem_id in obmm_unexport and obmm_unimport\<close>

text \<open>
  C9. For every flags value, \<open>obmm_unexport 0 flags\<close> and \<open>obmm_unimport 0 flags\<close>
  return \<open>-1\<close> with \<^verbatim>\<open>errno\<close> \<open>EINVAL\<close>, and nothing else changes: the static
  descriptor is as before (the device is not opened) and the trace has no new event
  (no \<^verbatim>\<open>open\<close>, no \<^verbatim>\<open>ioctl\<close>).
\<close>
theorem unexport_unimport_invalid_memid:
  "obmm_unexport w 0 flags st = (- 1, st\<lparr>errno := EINVAL\<rparr>)
   \<and> obmm_unimport w 0 flags st = (- 1, st\<lparr>errno := EINVAL\<rparr>)
   \<and> errno (snd (obmm_unexport w 0 flags st)) = EINVAL
   \<and> errno (snd (obmm_unimport w 0 flags st)) = EINVAL
   \<and> trace (snd (obmm_unexport w 0 flags st)) = trace st
   \<and> trace (snd (obmm_unimport w 0 flags st)) = trace st
   \<and> obmm_dev_fd (snd (obmm_unexport w 0 flags st)) = obmm_dev_fd st
   \<and> obmm_dev_fd (snd (obmm_unimport w 0 flags st)) = obmm_dev_fd st"
  by (simp add: obmm_unexport_def obmm_unimport_def OBMM_INVALID_MEMID_def)

subsection \<open>C10: outputs are written only on success\<close>

text \<open>
  C10 (as amended). The output locations are written only when the device call succeeded.
  \<^item> \<open>obmm_import\<close>: unless an \<^verbatim>\<open>OBMM_CMD_IMPORT\<close> call returned a value that is not
    negative, the call returns the invalid mem_id and \<^verbatim>\<open>*numa\<close> is as before. A call
    that returns the invalid mem_id leaves \<^verbatim>\<open>*numa\<close> as it was when the device never
    reports a success with mem_id 0 (the reserved value); with a device that does, the
    invalid mem_id is returned after \<^verbatim>\<open>*numa\<close> was written.
  \<^item> \<open>obmm_preimport\<close>: when it does not return 0 (and unless the
    \<^verbatim>\<open>OBMM_CMD_DECLARE_PREIMPORT\<close> call succeeded) the structure, with its \<open>numa_id\<close>,
    is as before.
  \<^item> the two queries: when they do not return 0 (and unless the
    \<^verbatim>\<open>OBMM_CMD_ADDR_QUERY\<close> call succeeded) the outputs are as before; a \<^verbatim>\<open>NULL\<close>
    output pointer is accepted and stays \<^verbatim>\<open>NULL\<close>.
\<close>
theorem outputs_written_only_on_success:
  assumes "obmm_import w desc_ptr flags base_dist numa_ptr st = (mid, numa', st_i)"
      and "obmm_preimport w info_ptr pflags st = (pret, info', st_p)"
      and "obmm_query_memid_by_pa w pa id_ptr offset_ptr st = (qret, id', offset', st_q)"
      and "obmm_query_pa_by_memid w qid qoffset pa_ptr st = (rret, pa', st_r)"
  shows "(\<not> ioctl_succeeded OBMM_CMD_IMPORT st st_i \<longrightarrow>
            mid = OBMM_INVALID_MEMID \<and> numa' = numa_ptr)
       \<and> ((\<forall>fd c r e c'. dev_import w fd c = (r, e, c') \<longrightarrow> 0 \<le> r \<longrightarrow>
               im_mem_id c' \<noteq> OBMM_INVALID_MEMID) \<longrightarrow>
            mid = OBMM_INVALID_MEMID \<longrightarrow> numa' = numa_ptr)
       \<and> (pret \<noteq> 0 \<or> \<not> ioctl_succeeded OBMM_CMD_DECLARE_PREIMPORT st st_p \<longrightarrow>
            info' = info_ptr)
       \<and> (qret \<noteq> 0 \<or> \<not> ioctl_succeeded OBMM_CMD_ADDR_QUERY st st_q \<longrightarrow>
            id' = id_ptr \<and> offset' = offset_ptr)
       \<and> (rret \<noteq> 0 \<or> \<not> ioctl_succeeded OBMM_CMD_ADDR_QUERY st st_r \<longrightarrow> pa' = pa_ptr)
       \<and> (id_ptr = None \<longrightarrow> id' = None) \<and> (offset_ptr = None \<longrightarrow> offset' = None)
       \<and> (pa_ptr = None \<longrightarrow> pa' = None)"
proof -
  note i = import_outcome[OF assms(1)]
  have a: "\<not> ioctl_succeeded OBMM_CMD_IMPORT st st_i \<longrightarrow>
            mid = OBMM_INVALID_MEMID \<and> numa' = numa_ptr"
    using i by blast
  have b: "(\<forall>fd c r e c'. dev_import w fd c = (r, e, c') \<longrightarrow> 0 \<le> r \<longrightarrow>
               im_mem_id c' \<noteq> OBMM_INVALID_MEMID) \<longrightarrow>
            mid = OBMM_INVALID_MEMID \<longrightarrow> numa' = numa_ptr"
  proof (intro impI)
    assume contract: "\<forall>fd c r e c'. dev_import w fd c = (r, e, c') \<longrightarrow> 0 \<le> r \<longrightarrow>
               im_mem_id c' \<noteq> OBMM_INVALID_MEMID"
      and inv: "mid = OBMM_INVALID_MEMID"
    from i show "numa' = numa_ptr"
    proof
      assume "mid = OBMM_INVALID_MEMID \<and> numa' = numa_ptr"
      then show ?thesis by simp
    next
      assume "ioctl_succeeded OBMM_CMD_IMPORT st st_i
           \<and> (\<exists>fd c r e c'. dev_import w fd c = (r, e, c') \<and> 0 \<le> r \<and> mid = im_mem_id c')"
      then obtain fd c r e c' where
        "dev_import w fd c = (r, e, c')" "0 \<le> r" "mid = im_mem_id c'"
        by blast
      with contract inv show ?thesis by metis
    qed
  qed
  have c: "pret \<noteq> 0 \<or> \<not> ioctl_succeeded OBMM_CMD_DECLARE_PREIMPORT st st_p \<longrightarrow>
            info' = info_ptr"
    using preimport_outcome[OF assms(2)] by blast
  have d: "(qret \<noteq> 0 \<or> \<not> ioctl_succeeded OBMM_CMD_ADDR_QUERY st st_q \<longrightarrow>
            id' = id_ptr \<and> offset' = offset_ptr)
           \<and> (id_ptr = None \<longrightarrow> id' = None) \<and> (offset_ptr = None \<longrightarrow> offset' = None)"
    using query_memid_outcome[OF assms(3)] by blast
  have e: "(rret \<noteq> 0 \<or> \<not> ioctl_succeeded OBMM_CMD_ADDR_QUERY st st_r \<longrightarrow> pa' = pa_ptr)
           \<and> (pa_ptr = None \<longrightarrow> pa' = None)"
    using query_pa_outcome[OF assms(4)] by blast
  from a b c d e show ?thesis by blast
qed

text \<open>
  C10 on the machine whose device fails every command: each call reaches its
  \<^verbatim>\<open>ioctl\<close>, which returns \<open>-1\<close>, and the outputs hold what they held; a \<^verbatim>\<open>NULL\<close>
  offset pointer stays \<^verbatim>\<open>NULL\<close>. On the sample machine a stale descriptor makes
  \<open>obmm_import\<close> return the invalid mem_id, and \<^verbatim>\<open>*numa\<close> keeps \<open>-1\<close>.
\<close>
theorem outputs_written_only_on_success_witness:
  "fst (obmm_import failing_env (Some example_desc) 0 0 (Some (- 1)) init_state)
     = OBMM_INVALID_MEMID
   \<and> fst (snd (obmm_import failing_env (Some example_desc) 0 0 (Some (- 1)) init_state))
     = Some (- 1)
   \<and> fst (obmm_preimport failing_env (Some example_info) 0 init_state) = - 1
   \<and> fst (snd (obmm_preimport failing_env (Some example_info) 0 init_state))
     = Some example_info
   \<and> fst (obmm_query_memid_by_pa failing_env 8192 (Some 7) None init_state) = - 1
   \<and> fst (snd (obmm_query_memid_by_pa failing_env 8192 (Some 7) None init_state)) = Some 7
   \<and> fst (snd (snd (obmm_query_memid_by_pa failing_env 8192 (Some 7) None init_state))) = None
   \<and> fst (obmm_query_pa_by_memid failing_env 42 16 (Some 9) init_state) = - 1
   \<and> fst (snd (obmm_query_pa_by_memid failing_env 42 16 (Some 9) init_state)) = Some 9
   \<and> fst (obmm_import example_env (Some stale_desc) 0 0 (Some (- 1)) init_state)
     = OBMM_INVALID_MEMID
   \<and> fst (snd (obmm_import example_env (Some stale_desc) 0 0 (Some (- 1)) init_state))
     = Some (- 1)"
proof -
  define s1 where "s1 = snd (snd (obmm_import failing_env (Some example_desc) 0 0 (Some (- 1)) init_state))"
  define s2 where "s2 = snd (snd (obmm_preimport failing_env (Some example_info) 0 init_state))"
  define s3 where "s3 = snd (snd (snd (obmm_query_memid_by_pa failing_env 8192 (Some 7) None init_state)))"
  define s4 where "s4 = snd (snd (obmm_query_pa_by_memid failing_env 42 16 (Some 9) init_state))"
  define s5 where "s5 = snd (snd (obmm_import example_env (Some stale_desc) 0 0 (Some (- 1)) init_state))"
  define n1 where "n1 = fst (snd (obmm_import failing_env (Some example_desc) 0 0 (Some (- 1)) init_state))"
  define i2 where "i2 = fst (snd (obmm_preimport failing_env (Some example_info) 0 init_state))"
  define a3 where "a3 = fst (snd (obmm_query_memid_by_pa failing_env 8192 (Some 7) None init_state))"
  define b3 where "b3 = fst (snd (snd (obmm_query_memid_by_pa failing_env 8192 (Some 7) None init_state)))"
  define p4 where "p4 = fst (snd (obmm_query_pa_by_memid failing_env 42 16 (Some 9) init_state))"
  define n5 where "n5 = fst (snd (obmm_import example_env (Some stale_desc) 0 0 (Some (- 1)) init_state))"
  define m1 where "m1 = fst (obmm_import failing_env (Some example_desc) 0 0 (Some (- 1)) init_state)"
  define m5 where "m5 = fst (obmm_import example_env (Some stale_desc) 0 0 (Some (- 1)) init_state)"
  have e1: "obmm_import failing_env (Some example_desc) 0 0 (Some (- 1)) init_state = (m1, n1, s1)"
    by (simp add: m1_def n1_def s1_def)
  have e2: "obmm_preimport failing_env (Some example_info) 0 init_state = (- 1, i2, s2)"
  proof -
    have "fst (obmm_preimport failing_env (Some example_info) 0 init_state) = - 1" by code_simp
    then show ?thesis by (simp add: i2_def s2_def prod_eq_iff)
  qed
  have e3: "obmm_query_memid_by_pa failing_env 8192 (Some 7) None init_state = (- 1, a3, b3, s3)"
  proof -
    have "fst (obmm_query_memid_by_pa failing_env 8192 (Some 7) None init_state) = - 1"
      by code_simp
    then show ?thesis by (simp add: a3_def b3_def s3_def prod_eq_iff)
  qed
  have e4: "obmm_query_pa_by_memid failing_env 42 16 (Some 9) init_state = (- 1, p4, s4)"
  proof -
    have "fst (obmm_query_pa_by_memid failing_env 42 16 (Some 9) init_state) = - 1"
      by code_simp
    then show ?thesis by (simp add: p4_def s4_def prod_eq_iff)
  qed
  have e5: "obmm_import example_env (Some stale_desc) 0 0 (Some (- 1)) init_state = (m5, n5, s5)"
    by (simp add: m5_def n5_def s5_def)
  have f1: "\<not> ioctl_succeeded OBMM_CMD_IMPORT init_state s1"
    unfolding s1_def by code_simp
  have m5: "m5 = OBMM_INVALID_MEMID"
    unfolding m5_def by code_simp
  have contract: "\<forall>fd c r e c'. dev_import example_env fd c = (r, e, c') \<longrightarrow> 0 \<le> r \<longrightarrow>
               im_mem_id c' \<noteq> OBMM_INVALID_MEMID"
    by (auto simp: example_env_def OBMM_INVALID_MEMID_def)
  from outputs_written_only_on_success[OF e1 e2 e3 e4] f1
  have r1: "m1 = OBMM_INVALID_MEMID" "n1 = Some (- 1)" "i2 = Some example_info"
       "a3 = Some 7" "b3 = None" "p4 = Some 9"
    by simp_all
  have g2: "obmm_preimport example_env (Some example_info) 0 init_state =
        (fst (obmm_preimport example_env (Some example_info) 0 init_state),
         fst (snd (obmm_preimport example_env (Some example_info) 0 init_state)),
         snd (snd (obmm_preimport example_env (Some example_info) 0 init_state)))"
    by simp
  have g3: "obmm_query_memid_by_pa example_env 8192 (Some 7) None init_state =
        (fst (obmm_query_memid_by_pa example_env 8192 (Some 7) None init_state),
         fst (snd (obmm_query_memid_by_pa example_env 8192 (Some 7) None init_state)),
         fst (snd (snd (obmm_query_memid_by_pa example_env 8192 (Some 7) None init_state))),
         snd (snd (snd (obmm_query_memid_by_pa example_env 8192 (Some 7) None init_state))))"
    by simp
  have g4: "obmm_query_pa_by_memid example_env 42 16 (Some 9) init_state =
        (fst (obmm_query_pa_by_memid example_env 42 16 (Some 9) init_state),
         fst (snd (obmm_query_pa_by_memid example_env 42 16 (Some 9) init_state)),
         snd (snd (obmm_query_pa_by_memid example_env 42 16 (Some 9) init_state)))"
    by simp
  from outputs_written_only_on_success[OF e5 g2 g3 g4] contract m5
  have r5: "n5 = Some (- 1)" by blast
  have fsts: "fst (obmm_preimport failing_env (Some example_info) 0 init_state) = - 1"
       "fst (obmm_query_memid_by_pa failing_env 8192 (Some 7) None init_state) = - 1"
       "fst (obmm_query_pa_by_memid failing_env 42 16 (Some 9) init_state) = - 1"
    using e2 e3 e4 by simp_all
  show ?thesis
    using r1 r5 m5 fsts
    unfolding m1_def n1_def i2_def a3_def b3_def p4_def n5_def m5_def
    by simp
qed

text \<open>
  C10 as stated fails with a device that accepts the import and replies with mem_id 0:
  \<open>obmm_import\<close> returns the invalid mem_id, and \<^verbatim>\<open>*numa\<close>, which held \<open>-1\<close>, was
  written with the node 2 of the reply.
\<close>
theorem import_sentinel_after_numa_written:
  "obmm_import zero_id_env (Some example_desc) 0 0 (Some (- 1)) init_state =
     (OBMM_INVALID_MEMID, Some 2, emit (Ev_ioctl OBMM_CMD_IMPORT 0) example_resolved)
   \<and> dev_import zero_id_env 3 (import_cmd example_desc 0 0 (Some (- 1))) =
     (0, 0, (import_cmd example_desc 0 0 (Some (- 1)))\<lparr>im_mem_id := 0, im_numa_id := 2\<rparr>)
   \<and> OBMM_INVALID_MEMID = 0
   \<and> (2 :: int) \<noteq> - 1"
  by code_simp

end
